theory Spec2Isabelle
  imports Complex_Main
begin

section \<open>Strings and the platform's string functions\<close>

text \<open>
  A string of the program is a list of 8-bit characters: the UTF-8 bytes of the text. The
  program itself sees UTF-16 code units; on ASCII text the two views are the same, and the
  functions that work per code unit are written so that they agree on well-formed UTF-8
  (\<open>sanitizeName\<close> below counts one code unit for a code point of two or three bytes and
  two for one of four bytes). \<open>toLowerCase\<close> changes the ASCII letters only.
\<close>

definition isAlnum :: "char \<Rightarrow> bool" where
  "isAlnum c =
     (let n = (of_char c :: nat)
      in (48 \<le> n \<and> n \<le> 57) \<or> (65 \<le> n \<and> n \<le> 90) \<or> (97 \<le> n \<and> n \<le> 122))"

definition hexDigit :: "nat \<Rightarrow> char" where
  "hexDigit n = ''0123456789ABCDEF'' ! n"

definition percentEncode :: "char \<Rightarrow> string" where
  "percentEncode c = [CHR ''%'', hexDigit (of_char c div 16), hexDigit (of_char c mod 16)]"

text \<open>\<open>encodeURIComponent\<close> keeps letters, digits and \<open>- _ . ! ~ * ' ( )\<close>.\<close>

definition uriUnreserved :: "char \<Rightarrow> bool" where
  "uriUnreserved c = (isAlnum c \<or> c \<in> set ''-_.!~*()'' \<or> c = CHR 0x27)"

definition encodeURIComponent :: "string \<Rightarrow> string" where
  "encodeURIComponent s = concat (map (\<lambda>c. if uriUnreserved c then [c] else percentEncode c) s)"

text \<open>
  The serializer of \<open>URLSearchParams\<close> (application/x-www-form-urlencoded): a space
  becomes \<open>+\<close>, letters, digits and \<open>* - . _\<close> stay, every other byte is percent-encoded.
\<close>

definition formEncodeChar :: "char \<Rightarrow> string" where
  "formEncodeChar c =
     (if c = CHR '' '' then ''+''
      else if isAlnum c \<or> c \<in> set ''*-._'' then [c]
      else percentEncode c)"

definition formEncode :: "string \<Rightarrow> string" where
  "formEncode s = concat (map formEncodeChar s)"

text \<open>\<open>Array.prototype.join\<close> on an array of strings.\<close>

fun join :: "string \<Rightarrow> string list \<Rightarrow> string" where
  "join sep [] = []"
| "join sep [x] = x"
| "join sep (x # y # ys) = x @ sep @ join sep (y # ys)"

text \<open>\<open>String.prototype.includes\<close>: the pattern occurs as a contiguous substring.\<close>

fun includes_str :: "string \<Rightarrow> string \<Rightarrow> bool" where
  "includes_str [] p = (p = [])"
| "includes_str (c # s) p = (take (length p) (c # s) = p \<or> includes_str s p)"

definition lowerChar :: "char \<Rightarrow> char" where
  "lowerChar c =
     (case map_of (zip ''ABCDEFGHIJKLMNOPQRSTUVWXYZ'' ''abcdefghijklmnopqrstuvwxyz'') c of
        Some l \<Rightarrow> l
      | None \<Rightarrow> c)"

definition toLowerCase :: "string \<Rightarrow> string" where
  "toLowerCase s = map lowerChar s"

text \<open>
  Numbers that are printed into a URL (\<open>nodata\<close>, \<open>tile_size\<close>, colormap entries, the
  corners of a search box). \<open>String(x)\<close> is defined by the language on the shortest decimal
  digits of \<open>x\<close>: for a finite \<open>x\<close> other than zero it takes the digit string \<open>s\<close> (of
  \<open>k\<close> digits, without a trailing zero) and the exponent \<open>n\<close> with
  \<open>x = \<plusminus> s \<times> 10^(n - k)\<close>. A number is therefore modelled by just these:
  \<open>Finite neg s n\<close>, with \<open>s = 0\<close> for zero; \<open>-122.5\<close> is \<open>Finite True 1225 3\<close> and
  \<open>3000\<close> is \<open>Finite False 3 4\<close>. Numbers that are only stored or handed to the map
  (opacity, bounds) are reals.
\<close>

datatype JSNumber = NaN | PosInfinity | NegInfinity | Finite bool nat int

fun digits :: "nat \<Rightarrow> string" where
  "digits n = (if n < 10 then [''0123456789'' ! n] else digits (n div 10) @ [''0123456789'' ! (n mod 10)])"

declare digits.simps [simp del]

text \<open>The cases of \<open>Number::toString\<close> on the digits \<open>ds\<close> and the exponent \<open>n\<close>.\<close>

definition formatDigits :: "string \<Rightarrow> int \<Rightarrow> string" where
  "formatDigits ds n =
     (let k = int (length ds)
      in if k \<le> n \<and> n \<le> 21 then ds @ replicate (nat (n - k)) (CHR ''0'')
         else if 0 < n \<and> n \<le> 21 then take (nat n) ds @ ''.'' @ drop (nat n) ds
         else if - 6 < n \<and> n \<le> 0 then ''0.'' @ replicate (nat (- n)) (CHR ''0'') @ ds
         else (let e = n - 1;
                   es = (if e < 0 then ''-'' else ''+'') @ digits (nat \<bar>e\<bar>)
               in if k = 1 then ds @ ''e'' @ es
                  else take 1 ds @ ''.'' @ drop 1 ds @ ''e'' @ es))"

fun String_number :: "JSNumber \<Rightarrow> string" where
  "String_number NaN = ''NaN''"
| "String_number PosInfinity = ''Infinity''"
| "String_number NegInfinity = ''-Infinity''"
| "String_number (Finite neg s n) =
     (if s = 0 then ''0'' else (if neg then ''-'' else []) @ formatDigits (digits s) n)"

text \<open>\<open>if (x)\<close> on a number fails for zero and for NaN.\<close>

fun truthyNumber :: "JSNumber \<Rightarrow> bool" where
  "truthyNumber NaN = False"
| "truthyNumber (Finite neg s n) = (s \<noteq> 0)"
| "truthyNumber _ = True"

text \<open>\<open>JSON.stringify\<close> prints a number as \<open>String\<close> does, and \<open>null\<close> for NaN and the infinities.\<close>

fun JSON_number :: "JSNumber \<Rightarrow> string" where
  "JSON_number (Finite neg s n) = String_number (Finite neg s n)"
| "JSON_number _ = ''null''"

definition String_boolean :: "bool \<Rightarrow> string" where
  "String_boolean b = (if b then ''true'' else ''false'')"

section \<open>URLSearchParams\<close>

text \<open>
  A \<open>URLSearchParams\<close> object is its ordered list of name/value pairs. \<open>append\<close> adds a
  pair at the end; \<open>set\<close> overwrites the first pair of that name and drops the others, or
  appends when there is none; \<open>toString\<close> serializes the pairs in order.
\<close>

type_synonym URLSearchParams = "(string \<times> string) list"

definition append_param :: "string \<Rightarrow> string \<Rightarrow> URLSearchParams \<Rightarrow> URLSearchParams" where
  "append_param k v sp = sp @ [(k, v)]"

fun set_param :: "string \<Rightarrow> string \<Rightarrow> URLSearchParams \<Rightarrow> URLSearchParams" where
  "set_param k v [] = [(k, v)]"
| "set_param k v (e # sp) =
     (if fst e = k then (k, v) # filter (\<lambda>e'. fst e' \<noteq> k) sp else e # set_param k v sp)"

definition toString_params :: "URLSearchParams \<Rightarrow> string" where
  "toString_params sp = join ''&'' (map (\<lambda>e. formEncode (fst e) @ ''='' @ formEncode (snd e)) sp)"

section \<open>Tile parameters and render presets (api/types.ts, api/render-presets.ts)\<close>

datatype Resampling = Nearest | Bilinear | Cubic | Lanczos

fun resampling_string :: "Resampling \<Rightarrow> string" where
  "resampling_string Nearest = ''nearest''"
| "resampling_string Bilinear = ''bilinear''"
| "resampling_string Cubic = ''cubic''"
| "resampling_string Lanczos = ''lanczos''"

text \<open>
  \<open>TileParams\<close>: every field is optional; \<open>None\<close> is an absent (undefined) field. An
  object keyed by strings (\<open>asset_bidx\<close>, \<open>colormap\<close>) is the list of its entries in the
  order \<open>Object.entries\<close> enumerates them.
\<close>

record TileParams =
  assets :: "string list option"
  expression :: "string option"
  rescale :: "string option"
  colormap_name :: "string option"
  colormap :: "(nat \<times> JSNumber list) list option"
  nodata :: "JSNumber option"
  resampling :: "Resampling option"
  return_mask :: "bool option"
  tile_size :: "JSNumber option"
  asset_bidx :: "(string \<times> string) list option"

definition emptyParams :: TileParams where
  "emptyParams = \<lparr>assets = None, expression = None, rescale = None, colormap_name = None,
     colormap = None, nodata = None, resampling = None, return_mask = None, tile_size = None,
     asset_bidx = None\<rparr>"

record RenderPreset =
  name :: string
  label :: string
  description :: "string option"
  params :: TileParams

record CollectionRenderConfig =
  collectionId :: string
  defaultPreset :: string
  presets :: "RenderPreset list"

definition sentinel2L2aPresets :: "RenderPreset list" where
  "sentinel2L2aPresets =
    [\<lparr>name = ''true-color'', label = ''True Color'',
      description = Some ''Natural color composite (RGB)'',
      params = emptyParams\<lparr>assets := Some [''visual'']\<rparr>\<rparr>,
     \<lparr>name = ''false-color'', label = ''False Color (Vegetation)'',
      description = Some ''NIR-Red-Green composite for vegetation analysis'',
      params = emptyParams\<lparr>assets := Some [''B08'', ''B04'', ''B03''], rescale := Some ''0,3000''\<rparr>\<rparr>,
     \<lparr>name = ''ndvi'', label = ''NDVI'',
      description = Some ''Normalized Difference Vegetation Index'',
      params = emptyParams\<lparr>expression := Some ''(B08-B04)/(B08+B04)'', rescale := Some ''-1,1'',
        colormap_name := Some ''rdylgn''\<rparr>\<rparr>,
     \<lparr>name = ''ndwi'', label = ''NDWI'',
      description = Some ''Normalized Difference Water Index'',
      params = emptyParams\<lparr>expression := Some ''(B03-B08)/(B03+B08)'', rescale := Some ''-1,1'',
        colormap_name := Some ''blues''\<rparr>\<rparr>,
     \<lparr>name = ''swir'', label = ''SWIR Composite'',
      description = Some ''SWIR-NIR-Red for geology and moisture'',
      params = emptyParams\<lparr>assets := Some [''B12'', ''B08'', ''B04''], rescale := Some ''0,3000''\<rparr>\<rparr>]"

definition landsatC2L2Presets :: "RenderPreset list" where
  "landsatC2L2Presets =
    [\<lparr>name = ''true-color'', label = ''True Color'',
      description = Some ''Natural color composite (RGB)'',
      params = emptyParams\<lparr>assets := Some [''red'', ''green'', ''blue''], rescale := Some ''0,20000''\<rparr>\<rparr>,
     \<lparr>name = ''false-color'', label = ''False Color (Vegetation)'',
      description = Some ''NIR-Red-Green composite'',
      params = emptyParams\<lparr>assets := Some [''nir08'', ''red'', ''green''], rescale := Some ''0,20000''\<rparr>\<rparr>,
     \<lparr>name = ''ndvi'', label = ''NDVI'',
      description = Some ''Normalized Difference Vegetation Index'',
      params = emptyParams\<lparr>expression := Some ''(nir08-red)/(nir08+red)'', rescale := Some ''-1,1'',
        colormap_name := Some ''rdylgn''\<rparr>\<rparr>,
     \<lparr>name = ''thermal'', label = ''Thermal'',
      description = Some ''Land surface temperature'',
      params = emptyParams\<lparr>assets := Some [''lwir11''], rescale := Some ''290,320'',
        colormap_name := Some ''magma''\<rparr>\<rparr>]"

definition naipPresets :: "RenderPreset list" where
  "naipPresets =
    [\<lparr>name = ''rgb'', label = ''RGB'', description = Some ''Natural color'',
      params = emptyParams\<lparr>assets := Some [''image''], asset_bidx := Some [(''image'', ''1,2,3'')]\<rparr>\<rparr>,
     \<lparr>name = ''cir'', label = ''Color Infrared'', description = Some ''NIR-Red-Green composite'',
      params = emptyParams\<lparr>assets := Some [''image''], asset_bidx := Some [(''image'', ''4,1,2'')]\<rparr>\<rparr>,
     \<lparr>name = ''ndvi'', label = ''NDVI'', description = Some ''Vegetation index from NAIP'',
      params = emptyParams\<lparr>expression := Some ''(image_b4-image_b1)/(image_b4+image_b1)'',
        rescale := Some ''-1,1'', colormap_name := Some ''rdylgn''\<rparr>\<rparr>]"

definition demPresets :: "RenderPreset list" where
  "demPresets =
    [\<lparr>name = ''elevation'', label = ''Elevation'', description = Some ''Color-coded elevation'',
      params = emptyParams\<lparr>assets := Some [''data''], colormap_name := Some ''terrain'',
        rescale := Some ''0,4000''\<rparr>\<rparr>,
     \<lparr>name = ''hillshade'', label = ''Hillshade'', description = Some ''Shaded relief visualization'',
      params = emptyParams\<lparr>assets := Some [''data''], colormap_name := Some ''gray'',
        rescale := Some ''0,255''\<rparr>\<rparr>]"

definition RENDER_CONFIGS :: "CollectionRenderConfig list" where
  "RENDER_CONFIGS =
    [\<lparr>collectionId = ''sentinel-2-l2a'', defaultPreset = ''true-color'', presets = sentinel2L2aPresets\<rparr>,
     \<lparr>collectionId = ''landsat-c2-l2'', defaultPreset = ''true-color'', presets = landsatC2L2Presets\<rparr>,
     \<lparr>collectionId = ''naip'', defaultPreset = ''rgb'', presets = naipPresets\<rparr>,
     \<lparr>collectionId = ''cop-dem-glo-30'', defaultPreset = ''elevation'', presets = demPresets\<rparr>,
     \<lparr>collectionId = ''cop-dem-glo-90'', defaultPreset = ''elevation'', presets = demPresets\<rparr>]"

text \<open>
  The lookups read the module's table \<open>RENDER_CONFIGS\<close>; here the table is their first
  argument, and the layer manager passes \<open>RENDER_CONFIGS\<close>. \<open>Array.prototype.find\<close> is
  \<open>List.find\<close>: the first element that satisfies the test.
\<close>

definition getRenderConfig :: "CollectionRenderConfig list \<Rightarrow> string \<Rightarrow> CollectionRenderConfig option" where
  "getRenderConfig configs cid = List.find (\<lambda>config. collectionId config = cid) configs"

definition getPresetsForCollection :: "CollectionRenderConfig list \<Rightarrow> string \<Rightarrow> RenderPreset list" where
  "getPresetsForCollection configs cid =
     (case getRenderConfig configs cid of None \<Rightarrow> [] | Some config \<Rightarrow> presets config)"

definition getDefaultPreset :: "CollectionRenderConfig list \<Rightarrow> string \<Rightarrow> RenderPreset option" where
  "getDefaultPreset configs cid =
     (case getRenderConfig configs cid of
        None \<Rightarrow> None
      | Some config \<Rightarrow> List.find (\<lambda>p. name p = defaultPreset config) (presets config))"

definition getPreset :: "CollectionRenderConfig list \<Rightarrow> string \<Rightarrow> string \<Rightarrow> RenderPreset option" where
  "getPreset configs cid presetNm =
     (case getRenderConfig configs cid of
        None \<Rightarrow> None
      | Some config \<Rightarrow> List.find (\<lambda>p. name p = presetNm) (presets config))"

section \<open>Tile-URL builder (TiTilerClient)\<close>

text \<open>
  \<open>JSON.stringify\<close> of a colormap object: its keys are numbers, so they are enumerated
  in ascending order and printed as quoted decimal strings; each value is an array of numbers.
\<close>

definition JSON_stringify_colormap :: "(nat \<times> JSNumber list) list \<Rightarrow> string" where
  "JSON_stringify_colormap cm =
     ''{'' @ join '','' (map (\<lambda>e. [CHR 0x22] @ digits (fst e) @ [CHR 0x22] @ '':['' @
                                   join '','' (map JSON_number (snd e)) @ '']'') cm) @ ''}''"

text \<open>
  \<open>buildQueryString\<close> fills a fresh \<open>URLSearchParams\<close>, one statement per field, and
  serializes it. A test \<open>if (x)\<close> on an optional string holds when the string is present
  and not empty, on an optional object or array when it is present, on an optional number
  when it is present and neither zero nor NaN.
\<close>

text \<open>\<open>if (params.assets?.length) params.assets.forEach(a => searchParams.append('assets', a))\<close>\<close>

definition appendAssets :: "string list option \<Rightarrow> URLSearchParams \<Rightarrow> URLSearchParams" where
  "appendAssets as sp =
     (case as of
        Some xs \<Rightarrow> if length xs \<noteq> 0 then foldl (\<lambda>s asset. append_param ''assets'' asset s) sp xs else sp
      | None \<Rightarrow> sp)"

text \<open>\<open>if (params.k) searchParams.set('k', params.k)\<close> for a string field.\<close>

definition setText :: "string \<Rightarrow> string option \<Rightarrow> URLSearchParams \<Rightarrow> URLSearchParams" where
  "setText k v sp = (case v of Some x \<Rightarrow> if x \<noteq> [] then set_param k x sp else sp | None \<Rightarrow> sp)"

text \<open>
  \<open>if (params.k !== undefined) searchParams.set('k', String(params.k))\<close>, and the same for a
  field whose test is its presence; the second argument is the text to store, when there
  is one.
\<close>

definition setDefined :: "string \<Rightarrow> string option \<Rightarrow> URLSearchParams \<Rightarrow> URLSearchParams" where
  "setDefined k v sp = (case v of Some x \<Rightarrow> set_param k x sp | None \<Rightarrow> sp)"

text \<open>\<open>Object.entries(params.asset_bidx).forEach(([asset, bidx]) => searchParams.append(...))\<close>\<close>

definition appendBidx :: "(string \<times> string) list option \<Rightarrow> URLSearchParams \<Rightarrow> URLSearchParams" where
  "appendBidx ab sp =
     (case ab of
        Some es \<Rightarrow> foldl (\<lambda>s e. append_param ''asset_bidx'' (fst e @ ''|'' @ snd e) s) sp es
      | None \<Rightarrow> sp)"

text \<open>\<open>buildQueryEntries\<close> is the \<open>URLSearchParams\<close> object just before \<open>toString\<close>.\<close>

definition buildQueryEntries :: "TileParams \<Rightarrow> URLSearchParams" where
  "buildQueryEntries tparams =
     (let searchParams = [];
          searchParams = appendAssets (assets tparams) searchParams;
          searchParams = setText ''expression'' (expression tparams) searchParams;
          searchParams = setText ''rescale'' (rescale tparams) searchParams;
          searchParams = setText ''colormap_name'' (colormap_name tparams) searchParams;
          searchParams = setDefined ''colormap''
                           (map_option JSON_stringify_colormap (colormap tparams)) searchParams;
          searchParams = setDefined ''nodata'' (map_option String_number (nodata tparams)) searchParams;
          searchParams = setDefined ''resampling''
                           (map_option resampling_string (resampling tparams)) searchParams;
          searchParams = setDefined ''return_mask''
                           (map_option String_boolean (return_mask tparams)) searchParams;
          searchParams = setDefined ''tile_size''
                           (case tile_size tparams of
                              Some n \<Rightarrow> if truthyNumber n then Some (String_number n) else None
                            | None \<Rightarrow> None) searchParams;
          searchParams = appendBidx (asset_bidx tparams) searchParams
      in searchParams)"

definition buildQueryString :: "TileParams \<Rightarrow> string" where
  "buildQueryString tparams = toString_params (buildQueryEntries tparams)"

datatype SortDirection = Asc | Desc

datatype FilterLang = Cql2Json | Cql2Text

text \<open>
  \<open>STACSearchParams\<close>. The GeoJSON geometry and the free-form \<open>query\<close> and \<open>filter\<close>
  objects are kept as opaque text: the tile-URL builder never looks inside them.
\<close>

record STACSearchParams =
  collections :: "string list option"
  bbox :: "JSNumber list option"
  datetime :: "string option"
  intersects :: "string option"
  ids :: "string list option"
  limit :: "int option"
  query :: "string option"
  sortby :: "(string \<times> SortDirection) list option"
  filter_S :: "string option"
  filter_lang :: "FilterLang option"

definition buildSearchParams :: "STACSearchParams \<Rightarrow> string" where
  "buildSearchParams sp =
     (let parts = [];
          parts = (case datetime sp of
              Some d \<Rightarrow> if d \<noteq> [] then parts @ [''datetime='' @ encodeURIComponent d] else parts
            | None \<Rightarrow> parts);
          parts = (case bbox sp of
              Some b \<Rightarrow> parts @ [''bbox='' @ join '','' (map String_number b)]
            | None \<Rightarrow> parts)
      in join ''&'' parts)"

record TiTilerClient =
  baseUrl :: string

definition DEFAULT_TILER_URL :: string where
  "DEFAULT_TILER_URL = ''https://planetarycomputer.microsoft.com/api/data/v1''"

text \<open>The constructor drops one trailing slash: \<open>baseUrl.replace(/\/$/, '')\<close>.\<close>

definition TiTilerClient_new :: "string option \<Rightarrow> TiTilerClient" where
  "TiTilerClient_new url =
     (let b = (case url of None \<Rightarrow> DEFAULT_TILER_URL | Some u \<Rightarrow> u)
      in \<lparr>baseUrl = (if b \<noteq> [] \<and> last b = CHR ''/'' then butlast b else b)\<rparr>)"

definition getItemTileUrl :: "TiTilerClient \<Rightarrow> string \<Rightarrow> string \<Rightarrow> TileParams \<Rightarrow> string" where
  "getItemTileUrl client cid itemId tparams =
     (let queryString = buildQueryString tparams;
          queryPart = (if queryString \<noteq> [] then ''?'' @ queryString else [])
      in baseUrl client @ ''/item/tiles/WebMercatorQuad/{z}/{x}/{y}@1x?collection='' @
         encodeURIComponent cid @ ''&item='' @ encodeURIComponent itemId @
         (if queryPart \<noteq> [] then ''&'' @ queryString else []))"

definition getCollectionTileUrl ::
  "TiTilerClient \<Rightarrow> string \<Rightarrow> TileParams \<Rightarrow> STACSearchParams option \<Rightarrow> string" where
  "getCollectionTileUrl client cid tparams searchParams =
     (let tileParams = buildQueryString tparams;
          searchStr = (case searchParams of Some sp \<Rightarrow> buildSearchParams sp | None \<Rightarrow> []);
          allParams = join ''&''
            (filter (\<lambda>s. s \<noteq> []) [''collection='' @ encodeURIComponent cid, tileParams, searchStr])
      in baseUrl client @ ''/mosaic/tiles/WebMercatorQuad/{z}/{x}/{y}@1x?'' @ allParams)"

section \<open>Catalog objects (api/types.ts)\<close>

text \<open>
  Of a STAC asset, item and collection the layer manager reads the fields below and no
  other. An asset map (\<open>Record<string, STACAsset>\<close>) is the list of its entries in the
  order \<open>Object.entries\<close> and \<open>Object.keys\<close> enumerate them; a lookup \<open>assets[k]\<close>
  is \<open>map_of\<close>.
\<close>

record STACAsset =
  href :: string
  type_A :: "string option"

record STACItem =
  id_I :: string
  bbox_I :: "real list"
  assets_I :: "(string \<times> STACAsset) list"
  collection_I :: "string option"

record STACCollection =
  id_C :: string
  title_C :: "string option"
  extent_spatial_bbox :: "real list list"
  item_assets :: "(string \<times> STACAsset) list option"

section \<open>The host map engine\<close>

text \<open>
  The map is the host engine's object, not code of this repository. It is modelled as the
  store of its raster sources and layers, with the list of the mutating calls made on it.
  Every call succeeds, as the layer manager assumes; a property set on a layer the map does
  not hold changes nothing, and a property read from such a layer is undefined (\<open>None\<close>).
\<close>

datatype Visibility = Visible | Hidden

record RasterSource =
  tiles :: "string list"
  tileSize :: nat
  bounds :: "real list option"
  attribution :: string

record RasterLayer =
  id_R :: string
  source :: string
  layout_visibility :: "Visibility option"
  raster_opacity :: "real option"

datatype MapCall =
    AddSource string RasterSource
  | RemoveSource string
  | AddLayer RasterLayer
  | RemoveLayer string
  | SetLayoutProperty string Visibility
  | SetPaintProperty string real

record MapLibreMap =
  sources :: "string \<rightharpoonup> RasterSource"
  style_layers :: "string \<rightharpoonup> RasterLayer"
  calls :: "MapCall list"

definition map_addSource :: "string \<Rightarrow> RasterSource \<Rightarrow> MapLibreMap \<Rightarrow> MapLibreMap" where
  "map_addSource sid src m = m\<lparr>sources := (sources m)(sid \<mapsto> src), calls := calls m @ [AddSource sid src]\<rparr>"

definition map_removeSource :: "string \<Rightarrow> MapLibreMap \<Rightarrow> MapLibreMap" where
  "map_removeSource sid m = m\<lparr>sources := (sources m)(sid := None), calls := calls m @ [RemoveSource sid]\<rparr>"

definition map_addLayer :: "RasterLayer \<Rightarrow> MapLibreMap \<Rightarrow> MapLibreMap" where
  "map_addLayer ly m =
     m\<lparr>style_layers := (style_layers m)(id_R ly \<mapsto> ly), calls := calls m @ [AddLayer ly]\<rparr>"

definition map_removeLayer :: "string \<Rightarrow> MapLibreMap \<Rightarrow> MapLibreMap" where
  "map_removeLayer lid m =
     m\<lparr>style_layers := (style_layers m)(lid := None), calls := calls m @ [RemoveLayer lid]\<rparr>"

definition map_getLayer :: "string \<Rightarrow> MapLibreMap \<Rightarrow> RasterLayer option" where
  "map_getLayer lid m = style_layers m lid"

definition map_getSource :: "string \<Rightarrow> MapLibreMap \<Rightarrow> RasterSource option" where
  "map_getSource sid m = sources m sid"

definition map_setLayoutProperty :: "string \<Rightarrow> Visibility \<Rightarrow> MapLibreMap \<Rightarrow> MapLibreMap" where
  "map_setLayoutProperty lid v m =
     m\<lparr>style_layers := (case style_layers m lid of
                           None \<Rightarrow> style_layers m
                         | Some ly \<Rightarrow> (style_layers m)(lid \<mapsto> ly\<lparr>layout_visibility := Some v\<rparr>)),
       calls := calls m @ [SetLayoutProperty lid v]\<rparr>"

definition map_setPaintProperty :: "string \<Rightarrow> real \<Rightarrow> MapLibreMap \<Rightarrow> MapLibreMap" where
  "map_setPaintProperty lid x m =
     m\<lparr>style_layers := (case style_layers m lid of
                           None \<Rightarrow> style_layers m
                         | Some ly \<Rightarrow> (style_layers m)(lid \<mapsto> ly\<lparr>raster_opacity := Some x\<rparr>)),
       calls := calls m @ [SetPaintProperty lid x]\<rparr>"

definition map_getLayoutProperty :: "string \<Rightarrow> MapLibreMap \<Rightarrow> Visibility option" where
  "map_getLayoutProperty lid m =
     (case style_layers m lid of None \<Rightarrow> None | Some ly \<Rightarrow> layout_visibility ly)"

definition map_getPaintProperty :: "string \<Rightarrow> MapLibreMap \<Rightarrow> real option" where
  "map_getPaintProperty lid m =
     (case style_layers m lid of None \<Rightarrow> None | Some ly \<Rightarrow> raster_opacity ly)"

section \<open>Layer manager (core/LayerManager.ts)\<close>

datatype LayerType = Item | Mosaic | Collection

record ActiveLayer =
  id_L :: string
  type_L :: LayerType
  sourceId :: string
  item :: "STACItem option"
  collection :: "STACCollection option"
  mosaicId :: "string option"
  visible :: bool
  opacity :: real
  assets_L :: "string list"
  renderParams :: TileParams
  presetName :: "string option"

text \<open>The options of the add operations; the whole argument is optional as well.\<close>

record LayerOptions =
  assets_O :: "string list option"
  renderParams_O :: "TileParams option"
  bbox_O :: "real list option"
  presetName_O :: "string option"

text \<open>
  \<open>Partial<ActiveLayer>\<close>: a field is \<open>None\<close> when the update does not carry the key.
\<close>

record LayerUpdates =
  id_U :: "string option"
  type_U :: "LayerType option"
  sourceId_U :: "string option"
  item_U :: "STACItem option"
  collection_U :: "STACCollection option"
  mosaicId_U :: "string option"
  visible_U :: "bool option"
  opacity_U :: "real option"
  assets_U :: "string list option"
  renderParams_U :: "TileParams option"
  presetName_U :: "string option"

record LayerManager =
  map_M :: MapLibreMap
  tilerClient :: TiTilerClient
  layers :: "string \<rightharpoonup> ActiveLayer"

definition preferredAssets :: "string list" where
  "preferredAssets = [''visual'', ''data'', ''image'', ''cog_default'']"

definition excludePatterns :: "string list" where
  "excludePatterns = [''thumbnail'', ''overview'', ''metadata'', ''tilejson'', ''rendered_preview'']"

text \<open>The first loop: the first preferred name that is a key of the asset map.\<close>

fun firstPreferred :: "string list \<Rightarrow> (string \<times> STACAsset) list \<Rightarrow> string option" where
  "firstPreferred [] as = None"
| "firstPreferred (asset # rest) as =
     (if map_of as asset \<noteq> None then Some asset else firstPreferred rest as)"

text \<open>The second loop: the first entry whose media type names a TIFF or COG.\<close>

definition isCogType :: "STACAsset \<Rightarrow> bool" where
  "isCogType asset =
     (let ty = (case type_A asset of None \<Rightarrow> [] | Some t \<Rightarrow> t)
      in includes_str ty ''tiff'' \<or> includes_str ty ''geotiff'' \<or> includes_str ty ''cog'')"

fun firstCogAsset :: "(string \<times> STACAsset) list \<Rightarrow> string option" where
  "firstCogAsset [] = None"
| "firstCogAsset (e # es) = (if isCogType (snd e) then Some (fst e) else firstCogAsset es)"

definition notExcluded :: "string \<Rightarrow> bool" where
  "notExcluded key = (\<not> list_ex (\<lambda>p. includes_str (toLowerCase key) p) excludePatterns)"

text \<open>
  \<open>getDefaultAssets\<close> and \<open>getDefaultCollectionAssets\<close> have the same body, the first
  over \<open>item.assets\<close> and the second over \<open>collection.item_assets || {}\<close>;
  \<open>defaultAssetsOf\<close> is that body. Its last step, \<open>dataAsset ? [dataAsset] : []\<close>, tests
  the key that \<open>find\<close> returned, and an empty string is falsy like \<open>undefined\<close>.
\<close>

definition defaultAssetsOf :: "(string \<times> STACAsset) list \<Rightarrow> string list" where
  "defaultAssetsOf as =
     (case firstPreferred preferredAssets as of
        Some asset \<Rightarrow> [asset]
      | None \<Rightarrow>
         (case firstCogAsset as of
            Some key \<Rightarrow> [key]
          | None \<Rightarrow>
             (case List.find notExcluded (map fst as) of
                Some dataAsset \<Rightarrow> if dataAsset \<noteq> [] then [dataAsset] else []
              | None \<Rightarrow> [])))"

definition getDefaultAssets :: "STACItem \<Rightarrow> string list" where
  "getDefaultAssets it = defaultAssetsOf (assets_I it)"

definition getDefaultCollectionAssets :: "STACCollection \<Rightarrow> string list" where
  "getDefaultCollectionAssets c =
     defaultAssetsOf (case item_assets c of None \<Rightarrow> [] | Some as \<Rightarrow> as)"

definition getCollectionBounds :: "STACCollection \<Rightarrow> real list option" where
  "getCollectionBounds c =
     (case extent_spatial_bbox c of
        [] \<Rightarrow> None
      | b # _ \<Rightarrow> if length b \<ge> 4 then Some [b ! 0, b ! 1, b ! 2, b ! 3] else None)"

text \<open>
  The layer id: \<open>name.replace(/[^a-zA-Z0-9-_]/g, '-').slice(0, 50)\<close>, a dash, and the last
  six characters of \<open>generateId()\<close>. The replacement puts one dash for every UTF-16 code
  unit outside the class: one for an ASCII character, one for a code point of two or three
  UTF-8 bytes (its lead byte, 192 to 239; the continuation bytes, 128 to 191, add nothing),
  two for a code point of four bytes (a surrogate pair). The result is ASCII, so the first
  50 code units are its first 50 bytes. The generated id depends on the clock and on
  \<open>Math.random\<close>, so it is an argument of the add operations.
\<close>

definition sanitizeUnit :: "char \<Rightarrow> string" where
  "sanitizeUnit c =
     (let n = (of_char c :: nat)
      in if isAlnum c \<or> c = CHR ''-'' \<or> c = CHR ''_'' then [c]
         else if n < 128 then ''-''
         else if n < 192 then []
         else if n < 240 then ''-''
         else ''--'')"

definition sanitizeName :: "string \<Rightarrow> string" where
  "sanitizeName s = take 50 (concat (map sanitizeUnit s))"

definition newLayerId :: "string \<Rightarrow> string \<Rightarrow> string" where
  "newLayerId nm generatedId = sanitizeName nm @ ''-'' @ drop (length generatedId - 6) generatedId"

definition opt_renderParams :: "LayerOptions option \<Rightarrow> TileParams option" where
  "opt_renderParams options = (case options of None \<Rightarrow> None | Some opt \<Rightarrow> renderParams_O opt)"

definition opt_assets :: "LayerOptions option \<Rightarrow> string list option" where
  "opt_assets options = (case options of None \<Rightarrow> None | Some opt \<Rightarrow> assets_O opt)"

definition opt_presetName :: "LayerOptions option \<Rightarrow> string option" where
  "opt_presetName options = (case options of None \<Rightarrow> None | Some opt \<Rightarrow> presetName_O opt)"

definition opt_bbox :: "LayerOptions option \<Rightarrow> real list option" where
  "opt_bbox options = (case options of None \<Rightarrow> None | Some opt \<Rightarrow> bbox_O opt)"

definition attributionText :: string where
  "attributionText = ''Microsoft Planetary Computer''"

definition addItemLayer ::
  "LayerManager \<Rightarrow> STACItem \<Rightarrow> LayerOptions option \<Rightarrow> string \<Rightarrow> ActiveLayer \<times> LayerManager" where
  "addItemLayer st it options generatedId =
     (let layerId = newLayerId (id_I it) generatedId;
          sid = layerId @ ''-source'';
          cid = (case collection_I it of None \<Rightarrow> [] | Some c \<Rightarrow> c);
          rp = (case opt_renderParams options of Some r \<Rightarrow> r | None \<Rightarrow> emptyParams);
          pn = opt_presetName options;
          (rp, pn) =
            (if opt_renderParams options = None \<and> opt_assets options = None \<and> cid \<noteq> []
             then (case getDefaultPreset RENDER_CONFIGS cid of
                     Some dp \<Rightarrow> (params dp, Some (name dp))
                   | None \<Rightarrow> (rp, pn))
             else (rp, pn));
          as = (case opt_assets options of
                  Some a \<Rightarrow> a
                | None \<Rightarrow> (case assets rp of Some a \<Rightarrow> a | None \<Rightarrow> getDefaultAssets it));
          rp = rp\<lparr>assets := Some as\<rparr>;
          tileUrl = getItemTileUrl (tilerClient st) cid (id_I it) rp;
          m = map_addSource sid
                \<lparr>tiles = [tileUrl], tileSize = 256, bounds = Some (bbox_I it),
                 attribution = attributionText\<rparr> (map_M st);
          m = map_addLayer
                \<lparr>id_R = layerId, source = sid, layout_visibility = None, raster_opacity = Some 1\<rparr> m;
          layer = \<lparr>id_L = layerId, type_L = Item, sourceId = sid, item = Some it,
                   collection = None, mosaicId = None, visible = True, opacity = 1,
                   assets_L = as, renderParams = rp, presetName = pn\<rparr>
      in (layer, st\<lparr>map_M := m, layers := (layers st)(layerId \<mapsto> layer)\<rparr>))"

definition addCollectionLayer ::
  "LayerManager \<Rightarrow> STACCollection \<Rightarrow> LayerOptions option \<Rightarrow> string \<Rightarrow> ActiveLayer \<times> LayerManager" where
  "addCollectionLayer st c options generatedId =
     (let collectionName = (case title_C c of
                              Some t \<Rightarrow> if t \<noteq> [] then t else id_C c
                            | None \<Rightarrow> id_C c);
          layerId = newLayerId collectionName generatedId;
          sid = layerId @ ''-source'';
          rp = (case opt_renderParams options of Some r \<Rightarrow> r | None \<Rightarrow> emptyParams);
          pn = opt_presetName options;
          (rp, pn) =
            (if opt_renderParams options = None \<and> opt_assets options = None
             then (case getDefaultPreset RENDER_CONFIGS (id_C c) of
                     Some dp \<Rightarrow> (params dp, Some (name dp))
                   | None \<Rightarrow> (rp, pn))
             else (rp, pn));
          as = (case opt_assets options of
                  Some a \<Rightarrow> a
                | None \<Rightarrow> (case assets rp of Some a \<Rightarrow> a | None \<Rightarrow> getDefaultCollectionAssets c));
          rp = rp\<lparr>assets := Some as\<rparr>;
          tileUrl = getCollectionTileUrl (tilerClient st) (id_C c) rp None;
          bnds = (case opt_bbox options of Some b \<Rightarrow> Some b | None \<Rightarrow> getCollectionBounds c);
          m = map_addSource sid
                \<lparr>tiles = [tileUrl], tileSize = 256, bounds = bnds,
                 attribution = attributionText\<rparr> (map_M st);
          m = map_addLayer
                \<lparr>id_R = layerId, source = sid, layout_visibility = None, raster_opacity = Some 1\<rparr> m;
          layer = \<lparr>id_L = layerId, type_L = Collection, sourceId = sid, item = None,
                   collection = Some c, mosaicId = None, visible = True, opacity = 1,
                   assets_L = as, renderParams = rp, presetName = pn\<rparr>
      in (layer, st\<lparr>map_M := m, layers := (layers st)(layerId \<mapsto> layer)\<rparr>))"

definition removeLayer :: "LayerManager \<Rightarrow> string \<Rightarrow> LayerManager" where
  "removeLayer st layerId =
     (case layers st layerId of
        None \<Rightarrow> st
      | Some layer \<Rightarrow>
         (let m = map_M st;
              m = (if map_getLayer layerId m \<noteq> None then map_removeLayer layerId m else m);
              m = (if map_getSource (sourceId layer) m \<noteq> None
                   then map_removeSource (sourceId layer) m else m)
          in st\<lparr>map_M := m, layers := (layers st)(layerId := None)\<rparr>))"

text \<open>Object spread: \<open>{ ...a, ...b }\<close> takes every field that \<open>b\<close> carries from \<open>b\<close>.\<close>

definition spread :: "'a option \<Rightarrow> 'a option \<Rightarrow> 'a option" where
  "spread a b = (case b of Some x \<Rightarrow> Some x | None \<Rightarrow> a)"

definition spreadParams :: "TileParams \<Rightarrow> TileParams option \<Rightarrow> TileParams" where
  "spreadParams a b =
     (case b of
        None \<Rightarrow> a
      | Some u \<Rightarrow>
         \<lparr>assets = spread (assets a) (assets u),
          expression = spread (expression a) (expression u),
          rescale = spread (rescale a) (rescale u),
          colormap_name = spread (colormap_name a) (colormap_name u),
          colormap = spread (colormap a) (colormap u),
          nodata = spread (nodata a) (nodata u),
          resampling = spread (resampling a) (resampling u),
          return_mask = spread (return_mask a) (return_mask u),
          tile_size = spread (tile_size a) (tile_size u),
          asset_bidx = spread (asset_bidx a) (asset_bidx u)\<rparr>)"

definition spreadLayer :: "ActiveLayer \<Rightarrow> LayerUpdates \<Rightarrow> ActiveLayer" where
  "spreadLayer layer updates =
     \<lparr>id_L = (case id_U updates of Some x \<Rightarrow> x | None \<Rightarrow> id_L layer),
      type_L = (case type_U updates of Some x \<Rightarrow> x | None \<Rightarrow> type_L layer),
      sourceId = (case sourceId_U updates of Some x \<Rightarrow> x | None \<Rightarrow> sourceId layer),
      item = spread (item layer) (item_U updates),
      collection = spread (collection layer) (collection_U updates),
      mosaicId = spread (mosaicId layer) (mosaicId_U updates),
      visible = (case visible_U updates of Some x \<Rightarrow> x | None \<Rightarrow> visible layer),
      opacity = (case opacity_U updates of Some x \<Rightarrow> x | None \<Rightarrow> opacity layer),
      assets_L = (case assets_U updates of Some x \<Rightarrow> x | None \<Rightarrow> assets_L layer),
      renderParams = (case renderParams_U updates of Some x \<Rightarrow> x | None \<Rightarrow> renderParams layer),
      presetName = spread (presetName layer) (presetName_U updates)\<rparr>"

definition updateLayerSource :: "LayerManager \<Rightarrow> string \<Rightarrow> LayerUpdates \<Rightarrow> LayerManager" where
  "updateLayerSource st layerId updates =
     (case layers st layerId of
        None \<Rightarrow> st
      | Some layer \<Rightarrow>
         (let newParams = spreadParams (renderParams layer) (renderParams_U updates);
              newAssets = (case assets_U updates of Some a \<Rightarrow> a | None \<Rightarrow> assets_L layer);
              tileUrl =
                (if type_L layer = Item \<and> item layer \<noteq> None
                 then (case item layer of
                         Some it \<Rightarrow>
                           Some (getItemTileUrl (tilerClient st)
                                   (case collection_I it of None \<Rightarrow> [] | Some c \<Rightarrow> c) (id_I it)
                                   (newParams\<lparr>assets := Some newAssets\<rparr>))
                       | None \<Rightarrow> None)
                 else if type_L layer = Collection \<and> collection layer \<noteq> None
                 then (case collection layer of
                         Some c \<Rightarrow>
                           Some (getCollectionTileUrl (tilerClient st) (id_C c)
                                   (newParams\<lparr>assets := Some newAssets\<rparr>) None)
                       | None \<Rightarrow> None)
                 else None)
          in (case tileUrl of
                None \<Rightarrow> st
              | Some url \<Rightarrow>
                 (let m = map_M st;
                      visibility = map_getLayoutProperty layerId m;
                      opac = map_getPaintProperty layerId m;
                      m = map_removeLayer layerId m;
                      m = map_removeSource (sourceId layer) m;
                      bnds = (case item layer of
                                Some it \<Rightarrow> Some (bbox_I it)
                              | None \<Rightarrow> (case collection layer of
                                           Some c \<Rightarrow> getCollectionBounds c
                                         | None \<Rightarrow> None));
                      m = map_addSource (sourceId layer)
                            \<lparr>tiles = [url], tileSize = 256, bounds = bnds,
                             attribution = attributionText\<rparr> m;
                      m = map_addLayer
                            \<lparr>id_R = layerId, source = sourceId layer,
                             layout_visibility = visibility,
                             raster_opacity = Some (case opac of Some x \<Rightarrow> x | None \<Rightarrow> 1)\<rparr> m
                  in st\<lparr>map_M := m\<rparr>))))"

definition updateLayer :: "LayerManager \<Rightarrow> string \<Rightarrow> LayerUpdates \<Rightarrow> LayerManager" where
  "updateLayer st layerId updates =
     (case layers st layerId of
        None \<Rightarrow> st
      | Some layer \<Rightarrow>
         (let st = (case visible_U updates of
                      Some v \<Rightarrow> st\<lparr>map_M := map_setLayoutProperty layerId
                                               (if v then Visible else Hidden) (map_M st)\<rparr>
                    | None \<Rightarrow> st);
              st = (case opacity_U updates of
                      Some x \<Rightarrow> st\<lparr>map_M := map_setPaintProperty layerId x (map_M st)\<rparr>
                    | None \<Rightarrow> st);
              st = (if renderParams_U updates \<noteq> None \<or> assets_U updates \<noteq> None
                    then updateLayerSource st layerId updates else st)
          in st\<lparr>layers := (layers st)(layerId \<mapsto> spreadLayer layer updates)\<rparr>))"

definition getLayer :: "LayerManager \<Rightarrow> string \<Rightarrow> ActiveLayer option" where
  "getLayer st layerId = layers st layerId"

section \<open>Token cache (api/sas-token.ts)\<close>

text \<open>
  Times. \<open>Date.getTime\<close> returns the milliseconds since the epoch, or NaN for an invalid
  date; the buffer is whatever number the constructor was given. A value of \<open>Millis\<close> is
  NaN, an infinity or a real, and subtraction and comparison follow the language: anything
  with NaN is NaN, and every comparison with NaN is false. (Rounding is left out: the
  values are whole milliseconds far below \<open>2^53\<close>.) The clock (\<open>new Date()\<close>, always a
  valid date, given by its whole milliseconds) and the network (\<open>fetch\<close>) are arguments of
  \<open>getToken\<close>. The outcome of a fetch is a rejection, or a response with its \<open>ok\<close> flag,
  its status text and, when the body parses, the token and the time value of
  \<open>new Date(data['msft:expiry'])\<close>, which is NaN when that string is not a date.
\<close>

datatype Millis = NaN_ms | NegInf_ms | Ms real | PosInf_ms

fun ms_minus :: "Millis \<Rightarrow> Millis \<Rightarrow> Millis" where
  "ms_minus NaN_ms y = NaN_ms"
| "ms_minus x NaN_ms = NaN_ms"
| "ms_minus (Ms a) (Ms b) = Ms (a - b)"
| "ms_minus PosInf_ms PosInf_ms = NaN_ms"
| "ms_minus NegInf_ms NegInf_ms = NaN_ms"
| "ms_minus PosInf_ms y = PosInf_ms"
| "ms_minus NegInf_ms y = NegInf_ms"
| "ms_minus (Ms a) PosInf_ms = NegInf_ms"
| "ms_minus (Ms a) NegInf_ms = PosInf_ms"

fun ms_greater :: "Millis \<Rightarrow> Millis \<Rightarrow> bool" where
  "ms_greater NaN_ms y = False"
| "ms_greater x NaN_ms = False"
| "ms_greater (Ms a) (Ms b) = (a > b)"
| "ms_greater PosInf_ms y = (y \<noteq> PosInf_ms)"
| "ms_greater NegInf_ms y = False"
| "ms_greater (Ms a) PosInf_ms = False"
| "ms_greater (Ms a) NegInf_ms = True"

record TokenCache =
  token :: string
  expiry :: Millis

record SASTokenManager =
  cache :: "string \<rightharpoonup> TokenCache"
  bufferMs :: Millis

record SASTokenResponse =
  token_R :: string
  msft_expiry :: Millis

datatype FetchOutcome = Rejected | Response bool string "SASTokenResponse option"

datatype TokenError = NetworkFailure | RequestFailed string | InvalidBody

record GetTokenResult =
  returned :: "TokenError + string"
  manager :: SASTokenManager
  requests :: "string list"

definition SAS_TOKEN_URL :: string where
  "SAS_TOKEN_URL = ''https://planetarycomputer.microsoft.com/api/sas/v1/token''"

definition SASTokenManager_new :: "Millis option \<Rightarrow> SASTokenManager" where
  "SASTokenManager_new buffer =
     \<lparr>cache = Map.empty, bufferMs = (case buffer of None \<Rightarrow> Ms (5 * 60 * 1000) | Some b \<Rightarrow> b)\<rparr>"

text \<open>The second half of \<open>getToken\<close>: request a token, and cache it when the request succeeds.\<close>

definition fetchNewToken :: "(string \<Rightarrow> FetchOutcome) \<Rightarrow> SASTokenManager \<Rightarrow> string \<Rightarrow> GetTokenResult" where
  "fetchNewToken fetch mgr cid =
     (let url = SAS_TOKEN_URL @ ''/'' @ encodeURIComponent cid
      in (case fetch url of
            Rejected \<Rightarrow> \<lparr>returned = Inl NetworkFailure, manager = mgr, requests = [url]\<rparr>
          | Response ok statusText body \<Rightarrow>
             (if \<not> ok
              then \<lparr>returned = Inl (RequestFailed (''Failed to get SAS token for '' @ cid @
                                                    '': '' @ statusText)),
                    manager = mgr, requests = [url]\<rparr>
              else (case body of
                      None \<Rightarrow> \<lparr>returned = Inl InvalidBody, manager = mgr, requests = [url]\<rparr>
                    | Some data \<Rightarrow>
                       \<lparr>returned = Inr (token_R data),
                        manager = mgr\<lparr>cache := (cache mgr)(cid \<mapsto>
                                     \<lparr>token = token_R data, expiry = msft_expiry data\<rparr>)\<rparr>,
                        requests = [url]\<rparr>))))"

definition getToken ::
  "(string \<Rightarrow> FetchOutcome) \<Rightarrow> int \<Rightarrow> SASTokenManager \<Rightarrow> string \<Rightarrow> GetTokenResult" where
  "getToken fetch now mgr cid =
     (case cache mgr cid of
        Some cached \<Rightarrow>
          if ms_greater (ms_minus (expiry cached) (Ms (of_int now))) (bufferMs mgr)
          then \<lparr>returned = Inr (token cached), manager = mgr, requests = []\<rparr>
          else fetchNewToken fetch mgr cid
      | None \<Rightarrow> fetchNewToken fetch mgr cid)"

definition hasValidToken :: "int \<Rightarrow> SASTokenManager \<Rightarrow> string \<Rightarrow> bool" where
  "hasValidToken now mgr cid =
     (case cache mgr cid of
        None \<Rightarrow> False
      | Some c \<Rightarrow> ms_greater (ms_minus (expiry c) (Ms (of_int now))) (bufferMs mgr))"

section \<open>Concrete inputs\<close>

text \<open>A token service that answers, and one that is unreachable.\<close>

definition fetchOk :: "string \<Rightarrow> FetchOutcome" where
  "fetchOk url = Response True ''OK'' (Some \<lparr>token_R = ''sv=abc'', msft_expiry = Ms 4000000\<rparr>)"

text \<open>A token service whose expiry string is not a date.\<close>

definition fetchBadExpiry :: "string \<Rightarrow> FetchOutcome" where
  "fetchBadExpiry url = Response True ''OK'' (Some \<lparr>token_R = ''sv=abc'', msft_expiry = NaN_ms\<rparr>)"

definition fetchDown :: "string \<Rightarrow> FetchOutcome" where
  "fetchDown url = Rejected"

text \<open>
  Two search-parameter sets with the same \<open>datetime\<close> and the same \<open>bbox\<close>,
  \<open>[-122.5, 37.5, -122, 38]\<close>.
\<close>

definition spA :: STACSearchParams where
  "spA = \<lparr>collections = Some [''naip''], bbox = Some [Finite True 1225 3, Finite False 375 2, Finite True 122 3, Finite False 38 2],
     datetime = Some ''2024-01-01/2024-12-31'', intersects = None, ids = None, limit = Some 10,
     query = Some ''{}'', sortby = Some [(''datetime'', Desc)], filter_S = None, filter_lang = None\<rparr>"

definition spB :: STACSearchParams where
  "spB = \<lparr>collections = None, bbox = Some [Finite True 1225 3, Finite False 375 2, Finite True 122 3, Finite False 38 2],
     datetime = Some ''2024-01-01/2024-12-31'', intersects = Some ''{}'', ids = Some [''a''],
     limit = None, query = None, sortby = None, filter_S = Some ''{}'', filter_lang = Some Cql2Json\<rparr>"

text \<open>An empty map, a manager on it, a Sentinel-2 scene, a DEM collection and some updates.\<close>

definition emptyMap :: MapLibreMap where
  "emptyMap = \<lparr>sources = Map.empty, style_layers = Map.empty, calls = []\<rparr>"

definition manager0 :: LayerManager where
  "manager0 = \<lparr>map_M = emptyMap, tilerClient = TiTilerClient_new None, layers = Map.empty\<rparr>"

definition sceneItem :: STACItem where
  "sceneItem = \<lparr>id_I = ''S2A_T10'', bbox_I = [-123, 37, -122, 38],
     assets_I = [(''thumbnail'', \<lparr>href = ''t.png'', type_A = Some ''image/png''\<rparr>),
                 (''visual'', \<lparr>href = ''v.tif'', type_A = Some ''image/tiff; application=geotiff''\<rparr>),
                 (''B08'', \<lparr>href = ''b08.tif'', type_A = Some ''image/tiff; application=geotiff''\<rparr>)],
     collection_I = Some ''sentinel-2-l2a''\<rparr>"

definition demCollection :: STACCollection where
  "demCollection = \<lparr>id_C = ''cop-dem-glo-30'', title_C = Some ''Copernicus DEM GLO-30'',
     extent_spatial_bbox = [[-180, -90, 180, 90]],
     item_assets = Some [(''data'', \<lparr>href = [], type_A = Some ''image/tiff; application=geotiff''\<rparr>)]\<rparr>"

definition generated :: string where
  "generated = ''lq3x9k2a-4f7h2c''"

definition noUpdates :: LayerUpdates where
  "noUpdates = \<lparr>id_U = None, type_U = None, sourceId_U = None, item_U = None, collection_U = None,
     mosaicId_U = None, visible_U = None, opacity_U = None, assets_U = None, renderParams_U = None,
     presetName_U = None\<rparr>"

definition hideAndFade :: LayerUpdates where
  "hideAndFade = noUpdates\<lparr>visible_U := Some False, opacity_U := Some (1/2)\<rparr>"

definition falseColorHidden :: LayerUpdates where
  "falseColorHidden = noUpdates\<lparr>visible_U := Some False,
     renderParams_U := Some (emptyParams\<lparr>assets := Some [''B08'', ''B04'', ''B03''], rescale := Some ''0,3000''\<rparr>)\<rparr>"

text \<open>A false-color bundle, an update that carries it, and options that carry it with other assets.\<close>

definition falseColorParams :: TileParams where
  "falseColorParams = emptyParams\<lparr>assets := Some [''B08'', ''B04'', ''B03''], rescale := Some ''0,3000''\<rparr>"

definition falseColor :: LayerUpdates where
  "falseColor = noUpdates\<lparr>renderParams_U := Some falseColorParams\<rparr>"

text \<open>An update that changes the kind of a record.\<close>

definition retype :: LayerUpdates where
  "retype = noUpdates\<lparr>type_U := Some Mosaic\<rparr>"

definition optionsBoth :: LayerOptions where
  "optionsBoth = \<lparr>assets_O = Some [''visual''], renderParams_O = Some falseColorParams,
     bbox_O = None, presetName_O = None\<rparr>"

text \<open>An entry with a thumbnail and a GeoTIFF \<open>data\<close> asset, of no collection.\<close>

definition previewItem :: STACItem where
  "previewItem = \<lparr>id_I = ''scene 1'', bbox_I = [0, 0, 1, 1],
     assets_I = [(''thumbnail'', \<lparr>href = ''t.png'', type_A = Some ''image/png''\<rparr>),
                 (''data'', \<lparr>href = ''d.tif'', type_A = Some ''image/tiff; application=geotiff''\<rparr>)],
     collection_I = None\<rparr>"

text \<open>An entry of no collection whose first asset key is the empty string.\<close>

definition emptyKeyItem :: STACItem where
  "emptyKeyItem = \<lparr>id_I = ''scene 2'', bbox_I = [0, 0, 1, 1],
     assets_I = [([], \<lparr>href = ''a.bin'', type_A = None\<rparr>),
                 (''B04'', \<lparr>href = ''b04.bin'', type_A = None\<rparr>)],
     collection_I = None\<rparr>"


section \<open>Notions used to state the properties of the token cache\<close>

text \<open>\<open>x <= y\<close> on times, as the language compares: false when either side is NaN.\<close>

fun ms_le :: "Millis \<Rightarrow> Millis \<Rightarrow> bool" where
  "ms_le NaN_ms y = False"
| "ms_le x NaN_ms = False"
| "ms_le (Ms a) (Ms b) = (a \<le> b)"
| "ms_le NegInf_ms y = True"
| "ms_le PosInf_ms y = (y = PosInf_ms)"
| "ms_le (Ms a) PosInf_ms = True"
| "ms_le (Ms a) NegInf_ms = False"

section \<open>Notions used to state the properties of the layer manager\<close>

text \<open>
  The collection id of an item (\<open>item.collection || ''\<close>), the default preset registered
  for it, and the parameter bundle that \<open>addItemLayer\<close> starts from: the explicit
  \<open>renderParams\<close>, else (only when no explicit \<open>assets\<close> are given either) the default
  preset's bundle, else the empty bundle.
\<close>

definition itemCollectionId :: "STACItem \<Rightarrow> string" where
  "itemCollectionId it = (case collection_I it of None \<Rightarrow> [] | Some c \<Rightarrow> c)"

definition itemDefaultPreset :: "STACItem \<Rightarrow> RenderPreset option" where
  "itemDefaultPreset it =
     (if itemCollectionId it \<noteq> [] then getDefaultPreset RENDER_CONFIGS (itemCollectionId it) else None)"

definition chosenBundle :: "STACItem \<Rightarrow> LayerOptions option \<Rightarrow> TileParams" where
  "chosenBundle it options =
     (case opt_renderParams options of
        Some r \<Rightarrow> r
      | None \<Rightarrow>
         (case opt_assets options of
            Some a \<Rightarrow> emptyParams
          | None \<Rightarrow> (case itemDefaultPreset it of Some dp \<Rightarrow> params dp | None \<Rightarrow> emptyParams)))"

text \<open>
  A record has its origin when its kind and its populated origin field agree, as in every
  record the add operations create.
\<close>

definition hasOrigin :: "ActiveLayer \<Rightarrow> bool" where
  "hasOrigin layer =
     ((type_L layer = Item \<and> item layer \<noteq> None) \<or> (type_L layer = Collection \<and> collection layer \<noteq> None))"

text \<open>The calls that the visibility and opacity part of an update makes on the map.\<close>

definition propertyCalls :: "string \<Rightarrow> LayerUpdates \<Rightarrow> MapCall list" where
  "propertyCalls lid u =
     (case visible_U u of Some v \<Rightarrow> [SetLayoutProperty lid (if v then Visible else Hidden)] | None \<Rightarrow> []) @
     (case opacity_U u of Some x \<Rightarrow> [SetPaintProperty lid x] | None \<Rightarrow> [])"

text \<open>The calls that add or remove a source.\<close>

fun isSourceCall :: "MapCall \<Rightarrow> bool" where
  "isSourceCall (AddSource _ _) = True"
| "isSourceCall (RemoveSource _) = True"
| "isSourceCall _ = False"

text \<open>
  The map after the visibility and opacity part of \<open>updateLayer\<close>: the live state that
  \<open>updateLayerSource\<close> reads just before it removes the layer and the source.
\<close>

definition applyProperties :: "string \<Rightarrow> LayerUpdates \<Rightarrow> MapLibreMap \<Rightarrow> MapLibreMap" where
  "applyProperties lid u m =
     (let m = (case visible_U u of Some v \<Rightarrow> map_setLayoutProperty lid (if v then Visible else Hidden) m | None \<Rightarrow> m)
      in (case opacity_U u of Some x \<Rightarrow> map_setPaintProperty lid x m | None \<Rightarrow> m))"

text \<open>
  The default-asset heuristic as the specification words it: the first preferred name that
  is a key of the asset map; else the key of the first asset whose media type contains
  \<open>tiff\<close>, \<open>geotiff\<close> or \<open>cog\<close>; else the first key that contains none of the
  exclusion patterns, compared in lower case; else nothing. A string contains a pattern when
  the pattern occurs in it as a contiguous piece.
\<close>

definition contains_substring :: "string \<Rightarrow> string \<Rightarrow> bool" where
  "contains_substring s p = (\<exists>pre post. s = pre @ p @ post)"

definition scanDefaultAssets :: "(string \<times> STACAsset) list \<Rightarrow> string list" where
  "scanDefaultAssets as =
     (let present = filter (\<lambda>n. n \<in> fst ` set as) [''visual'', ''data'', ''image'', ''cog_default''];
          tiffs = filter (\<lambda>e. \<exists>t. type_A (snd e) = Some t \<and>
                      (contains_substring t ''tiff'' \<or> contains_substring t ''geotiff'' \<or>
                       contains_substring t ''cog'')) as;
          others = filter (\<lambda>k. \<forall>p \<in> set [''thumbnail'', ''overview'', ''metadata'', ''tilejson'',
                                              ''rendered_preview'']. \<not> contains_substring (toLowerCase k) p)
                     (map fst as)
      in (case present of
            n # _ \<Rightarrow> [n]
          | [] \<Rightarrow> (case tiffs of
                     e # _ \<Rightarrow> [fst e]
                   | [] \<Rightarrow> (case others of k # _ \<Rightarrow> [k] | [] \<Rightarrow> []))))"

text \<open>
  Reading a query string back: it is cut at every \<open>&\<close>, and each piece at its first
  \<open>=\<close>, into the name and the value of a parameter (both still percent-encoded). The
  names that \<open>buildQueryString\<close> uses besides \<open>assets\<close> and \<open>expression\<close> are
  \<open>otherKeys\<close>.
\<close>

fun split_on :: "char \<Rightarrow> string \<Rightarrow> string list" where
  "split_on c [] = [[]]"
| "split_on c (x # xs) =
     (if x = c then [] # split_on c xs
      else (case split_on c xs of w # ws \<Rightarrow> (x # w) # ws | [] \<Rightarrow> [[x]]))"

definition query_entries :: "string \<Rightarrow> (string \<times> string) list" where
  "query_entries qs =
     (if qs = [] then []
      else map (\<lambda>part. (takeWhile (\<lambda>c. c \<noteq> CHR ''='') part,
                         drop 1 (dropWhile (\<lambda>c. c \<noteq> CHR ''='') part)))
             (split_on (CHR ''&'') qs))"

definition otherKeys :: "string set" where
  "otherKeys = {''rescale'', ''colormap_name'', ''colormap'', ''nodata'', ''resampling'',
                ''return_mask'', ''tile_size'', ''asset_bidx''}"

text \<open>
  The names of the search fields other than \<open>datetime\<close> and \<open>bbox\<close>
  (\<open>STACSearchParams\<close> in api/types.ts).
\<close>

definition searchFieldNames :: "string set" where
  "searchFieldNames = {''query'', ''filter'', ''filter-lang'', ''sortby'', ''intersects'', ''ids'',
                       ''limit'', ''collections''}"

section \<open>Preset registry: lookups\<close>

lemma getRenderConfig_None_iff:
  "getRenderConfig configs cid = None \<longleftrightarrow> cid \<notin> collectionId ` set configs"
  by (auto simp: getRenderConfig_def find_None_iff)

lemma find_name_Some:
  "List.find (\<lambda>p. name p = n) ps = Some p \<Longrightarrow> p \<in> set ps \<and> name p = n"
  by (induction ps) (auto split: if_splits)

lemma find_name_None_iff:
  "List.find (\<lambda>p. name p = n) ps = None \<longleftrightarrow> n \<notin> name ` set ps"
  by (auto simp: find_None_iff)

lemma find_first:
  "P x \<Longrightarrow> \<forall>y \<in> set xs. \<not> P y \<Longrightarrow> List.find P (xs @ x # ys) = Some x"
  by (induction xs) auto

lemma getRenderConfig_first:
  "configs = before @ config # after \<Longrightarrow> collectionId config = cid \<Longrightarrow>
   cid \<notin> collectionId ` set before \<Longrightarrow> getRenderConfig configs cid = Some config"
proof -
  assume c: "configs = before @ config # after" and i: "collectionId config = cid"
    and n: "cid \<notin> collectionId ` set before"
  from n have "\<forall>y \<in> set before. \<not> collectionId y = cid" by (metis image_eqI)
  from find_first [of "\<lambda>config. collectionId config = cid" config before after, OF i this]
  show ?thesis by (simp add: getRenderConfig_def c)
qed

text \<open>
  C9. For a collection id that is not in the render-config table, \<open>getPresetsForCollection\<close>
  returns the empty list, and \<open>getDefaultPreset\<close> and \<open>getPreset\<close> return nothing; the
  lookups are total, so none of them fails. For an id that is in the table, let \<open>config\<close> be
  the first entry of the table with that id (there is one): \<open>getPresetsForCollection\<close>
  returns its presets; \<open>getDefaultPreset\<close> returns its first preset whose name is the
  declared default name, and nothing when no preset carries that name; \<open>getPreset\<close> returns
  its first preset of the requested name, and nothing when there is none.
\<close>

theorem preset_lookups:
  "(cid \<notin> collectionId ` set configs \<longrightarrow>
      getPresetsForCollection configs cid = [] \<and>
      getDefaultPreset configs cid = None \<and>
      getPreset configs cid n = None) \<and>
   (cid \<in> collectionId ` set configs \<longrightarrow>
      (\<exists>before config after.
         configs = before @ config # after \<and> collectionId config = cid \<and>
         cid \<notin> collectionId ` set before)) \<and>
   (\<forall>before config after.
      configs = before @ config # after \<and> collectionId config = cid \<and>
      cid \<notin> collectionId ` set before \<longrightarrow>
        getPresetsForCollection configs cid = presets config \<and>
        (defaultPreset config \<notin> name ` set (presets config) \<longrightarrow>
           getDefaultPreset configs cid = None) \<and>
        (\<forall>ps p qs. presets config = ps @ p # qs \<and> name p = defaultPreset config \<and>
           defaultPreset config \<notin> name ` set ps \<longrightarrow>
           getDefaultPreset configs cid = Some p) \<and>
        (n \<notin> name ` set (presets config) \<longrightarrow> getPreset configs cid n = None) \<and>
        (\<forall>ps p qs. presets config = ps @ p # qs \<and> name p = n \<and> n \<notin> name ` set ps \<longrightarrow>
           getPreset configs cid n = Some p))"
proof (intro conjI impI allI)
  assume "cid \<notin> collectionId ` set configs"
  then have none: "getRenderConfig configs cid = None"
    by (simp add: getRenderConfig_None_iff)
  show "getPresetsForCollection configs cid = []"
    by (simp add: getPresetsForCollection_def none)
  show "getDefaultPreset configs cid = None"
    by (simp add: getDefaultPreset_def none)
  show "getPreset configs cid n = None"
    by (simp add: getPreset_def none)
next
  assume "cid \<in> collectionId ` set configs"
  then have "cid \<in> set (map collectionId configs)" by simp
  from split_list_first [OF this]
  obtain ys zs where m: "map collectionId configs = ys @ cid # zs" and f: "cid \<notin> set ys"
    by blast
  from m obtain before config after where
    "configs = before @ config # after" "ys = map collectionId before" "cid = collectionId config"
    by (auto simp: map_eq_append_conv Cons_eq_map_conv)
  with f show "\<exists>before config after.
         configs = before @ config # after \<and> collectionId config = cid \<and>
         cid \<notin> collectionId ` set before"
    by auto
next
  fix before config after
  assume a: "configs = before @ config # after \<and> collectionId config = cid \<and>
      cid \<notin> collectionId ` set before"
  then have some: "getRenderConfig configs cid = Some config"
    using getRenderConfig_first by blast
  show "getPresetsForCollection configs cid = presets config"
    by (simp add: getPresetsForCollection_def some)
  { assume "defaultPreset config \<notin> name ` set (presets config)"
    then show "getDefaultPreset configs cid = None"
      by (simp add: getDefaultPreset_def some find_name_None_iff) }
  { assume "n \<notin> name ` set (presets config)"
    then show "getPreset configs cid n = None"
      by (simp add: getPreset_def some find_name_None_iff) }
  { fix ps p qs
    assume "presets config = ps @ p # qs \<and> name p = defaultPreset config \<and>
           defaultPreset config \<notin> name ` set ps"
    then have "presets config = ps @ p # qs" "name p = defaultPreset config"
      "\<forall>y \<in> set ps. \<not> name y = defaultPreset config" by (simp_all, metis image_eqI)
    with find_first [of "\<lambda>p. name p = defaultPreset config" p ps qs]
    show "getDefaultPreset configs cid = Some p"
      by (simp add: getDefaultPreset_def some) }
  { fix ps p qs
    assume "presets config = ps @ p # qs \<and> name p = n \<and> n \<notin> name ` set ps"
    then have "presets config = ps @ p # qs" "name p = n" "\<forall>y \<in> set ps. \<not> name y = n"
      by (simp_all, metis image_eqI)
    with find_first [of "\<lambda>p. name p = n" p ps qs]
    show "getPreset configs cid n = Some p"
      by (simp add: getPreset_def some) }
qed

theorem preset_lookups_witness:
  "getPresetsForCollection RENDER_CONFIGS ''modis'' = [] \<and>
   getDefaultPreset RENDER_CONFIGS ''modis'' = None \<and>
   getPreset RENDER_CONFIGS ''modis'' ''rgb'' = None \<and>
   getPresetsForCollection RENDER_CONFIGS ''landsat-c2-l2'' = landsatC2L2Presets \<and>
   getDefaultPreset RENDER_CONFIGS ''landsat-c2-l2'' =
     Some \<lparr>name = ''true-color'', label = ''True Color'',
           description = Some ''Natural color composite (RGB)'',
           params = emptyParams\<lparr>assets := Some [''red'', ''green'', ''blue''], rescale := Some ''0,20000''\<rparr>\<rparr> \<and>
   getPreset RENDER_CONFIGS ''landsat-c2-l2'' ''thermal'' =
     Some \<lparr>name = ''thermal'', label = ''Thermal'',
           description = Some ''Land surface temperature'',
           params = emptyParams\<lparr>assets := Some [''lwir11''], rescale := Some ''290,320'',
             colormap_name := Some ''magma''\<rparr>\<rparr> \<and>
   getPreset RENDER_CONFIGS ''landsat-c2-l2'' ''swir'' = None"
proof -
  let ?before = "[\<lparr>collectionId = ''sentinel-2-l2a'', defaultPreset = ''true-color'',
                   presets = sentinel2L2aPresets\<rparr>]"
  let ?config = "\<lparr>collectionId = ''landsat-c2-l2'', defaultPreset = ''true-color'',
                   presets = landsatC2L2Presets\<rparr>"
  let ?after = "[\<lparr>collectionId = ''naip'', defaultPreset = ''rgb'', presets = naipPresets\<rparr>,
     \<lparr>collectionId = ''cop-dem-glo-30'', defaultPreset = ''elevation'', presets = demPresets\<rparr>,
     \<lparr>collectionId = ''cop-dem-glo-90'', defaultPreset = ''elevation'', presets = demPresets\<rparr>]"
  have unknown: "''modis'' \<notin> collectionId ` set RENDER_CONFIGS"
    by (simp add: RENDER_CONFIGS_def)
  have table: "RENDER_CONFIGS = ?before @ ?config # ?after \<and> collectionId ?config = ''landsat-c2-l2'' \<and>
      ''landsat-c2-l2'' \<notin> collectionId ` set ?before"
    by (simp add: RENDER_CONFIGS_def)
  have first: "presets ?config = [] @ (landsatC2L2Presets ! 0) # tl landsatC2L2Presets \<and>
      name (landsatC2L2Presets ! 0) = defaultPreset ?config \<and>
      defaultPreset ?config \<notin> name ` set []"
    by (simp add: landsatC2L2Presets_def)
  have thermal: "presets ?config = take 3 landsatC2L2Presets @ (landsatC2L2Presets ! 3) # [] \<and>
      name (landsatC2L2Presets ! 3) = ''thermal'' \<and>
      ''thermal'' \<notin> name ` set (take 3 landsatC2L2Presets)"
    by (simp add: landsatC2L2Presets_def)
  have swir: "''swir'' \<notin> name ` set (presets ?config)"
    by (simp add: landsatC2L2Presets_def)
  note U = preset_lookups [of "''modis''" RENDER_CONFIGS "''rgb''", THEN conjunct1, rule_format, OF unknown]
  note K1 = preset_lookups [of "''landsat-c2-l2''" RENDER_CONFIGS "''thermal''",
      THEN conjunct2, THEN conjunct2, rule_format, OF table]
  note K2 = preset_lookups [of "''landsat-c2-l2''" RENDER_CONFIGS "''swir''",
      THEN conjunct2, THEN conjunct2, rule_format, OF table]
  from K1 have a: "getPresetsForCollection RENDER_CONFIGS ''landsat-c2-l2'' = landsatC2L2Presets"
    by simp
  from K1 [THEN conjunct2, THEN conjunct2, THEN conjunct1, rule_format, OF first]
  have b: "getDefaultPreset RENDER_CONFIGS ''landsat-c2-l2'' = Some (landsatC2L2Presets ! 0)" .
  from K1 [THEN conjunct2, THEN conjunct2, THEN conjunct2, THEN conjunct2, rule_format, OF thermal]
  have c: "getPreset RENDER_CONFIGS ''landsat-c2-l2'' ''thermal'' = Some (landsatC2L2Presets ! 3)" .
  from K2 [THEN conjunct2, THEN conjunct2, THEN conjunct2, THEN conjunct1, rule_format, OF swir]
  have d: "getPreset RENDER_CONFIGS ''landsat-c2-l2'' ''swir'' = None" .
  from U a b c d show ?thesis
    by (simp add: landsatC2L2Presets_def)
qed

text \<open>
  In the table of the module the collection ids are distinct, the preset names of each
  configuration are distinct, and every declared default names one of the presets.
\<close>

lemma table_default_presets:
  "map (\<lambda>config. map_option name (getDefaultPreset RENDER_CONFIGS (collectionId config))) RENDER_CONFIGS =
     [Some ''true-color'', Some ''true-color'', Some ''rgb'', Some ''elevation'', Some ''elevation'']"
  "distinct (map collectionId RENDER_CONFIGS)"
  "\<forall>config \<in> set RENDER_CONFIGS. distinct (map name (presets config))"
  by (simp_all add: getDefaultPreset_def getRenderConfig_def RENDER_CONFIGS_def sentinel2L2aPresets_def
      landsatC2L2Presets_def naipPresets_def demPresets_def)

section \<open>Token cache: when a token is fetched\<close>

lemma fetchNewToken_requests: "requests (fetchNewToken fetch mgr cid) \<noteq> []"
  by (simp add: fetchNewToken_def Let_def split: FetchOutcome.split option.split)

lemma fetchNewToken_cached:
  "returned (fetchNewToken fetch mgr cid) = Inr t \<Longrightarrow>
   \<exists>e. cache (manager (fetchNewToken fetch mgr cid)) cid = Some \<lparr>token = t, expiry = e\<rparr>"
  by (auto simp: fetchNewToken_def Let_def split: FetchOutcome.splits option.splits if_splits)

lemma getToken_cached:
  "returned (getToken fetch now mgr cid) = Inr t \<Longrightarrow>
   \<exists>e. cache (manager (getToken fetch now mgr cid)) cid = Some \<lparr>token = t, expiry = e\<rparr>"
proof (cases "cache mgr cid")
  case None
  assume "returned (getToken fetch now mgr cid) = Inr t"
  with None show ?thesis using fetchNewToken_cached [of fetch mgr cid t]
    by (simp add: getToken_def)
next
  case (Some c)
  assume r: "returned (getToken fetch now mgr cid) = Inr t"
  show ?thesis
  proof (cases "ms_greater (ms_minus (expiry c) (Ms (of_int now))) (bufferMs mgr)")
    case True
    with Some r show ?thesis by (cases c) (simp add: getToken_def)
  next
    case False
    with Some r show ?thesis using fetchNewToken_cached [of fetch mgr cid t]
      by (simp add: getToken_def)
  qed
qed

lemma getToken_valid:
  "hasValidToken now mgr cid \<Longrightarrow> cache mgr cid = Some c \<Longrightarrow>
   returned (getToken fetch now mgr cid) = Inr (token c) \<and> requests (getToken fetch now mgr cid) = []
   \<and> manager (getToken fetch now mgr cid) = mgr"
  by (simp add: hasValidToken_def getToken_def)

lemma ms_minus_NaN_iff: "ms_minus x (Ms b) = NaN_ms \<longleftrightarrow> x = NaN_ms"
  by (cases x) simp_all

lemma ms_not_greater_iff_le:
  "x \<noteq> NaN_ms \<Longrightarrow> y \<noteq> NaN_ms \<Longrightarrow> \<not> ms_greater x y \<longleftrightarrow> ms_le x y"
  by (cases x; cases y) auto

lemma ms_NaN_compare:
  "x = NaN_ms \<or> y = NaN_ms \<Longrightarrow> \<not> ms_greater x y \<and> \<not> ms_le x y"
  by (cases x; cases y) auto

text \<open>
  C5, as amended. \<open>getToken\<close> makes a network request exactly when the cache has no entry
  for the collection or the test \<open>expiry - now > buffer\<close> fails for the cached entry. For
  an entry with a valid expiry date and a buffer that is not NaN this is
  \<open>expiry - now <= buffer\<close>; an entry whose expiry is an invalid date, or a NaN buffer,
  makes every call request a token, although \<open>expiry - now <= buffer\<close> is false then.
  When a call returned a token and the entry it leaves is inside the valid window at the
  time of the next call, the next call returns the same token and makes no request. The
  buffer of a manager built without an argument is 300000 ms.
\<close>

theorem getToken_fetch_iff:
  "(requests (getToken fetch now mgr cid) \<noteq> [] \<longleftrightarrow>
      cache mgr cid = None \<or>
      (\<exists>c. cache mgr cid = Some c \<and>
           \<not> ms_greater (ms_minus (expiry c) (Ms (of_int now))) (bufferMs mgr))) \<and>
   (\<forall>c. cache mgr cid = Some c \<and> expiry c \<noteq> NaN_ms \<and> bufferMs mgr \<noteq> NaN_ms \<longrightarrow>
      (requests (getToken fetch now mgr cid) \<noteq> [] \<longleftrightarrow>
         ms_le (ms_minus (expiry c) (Ms (of_int now))) (bufferMs mgr))) \<and>
   (\<forall>c. cache mgr cid = Some c \<and> (expiry c = NaN_ms \<or> bufferMs mgr = NaN_ms) \<longrightarrow>
      requests (getToken fetch now mgr cid) \<noteq> [] \<and>
      \<not> ms_le (ms_minus (expiry c) (Ms (of_int now))) (bufferMs mgr)) \<and>
   (\<forall>t. returned (getToken fetch now mgr cid) = Inr t \<and>
        hasValidToken now2 (manager (getToken fetch now mgr cid)) cid \<longrightarrow>
        returned (getToken fetch2 now2 (manager (getToken fetch now mgr cid)) cid) = Inr t \<and>
        requests (getToken fetch2 now2 (manager (getToken fetch now mgr cid)) cid) = []) \<and>
   bufferMs (SASTokenManager_new None) = Ms 300000"
proof (intro conjI allI impI)
  show iff: "requests (getToken fetch now mgr cid) \<noteq> [] \<longleftrightarrow>
      cache mgr cid = None \<or>
      (\<exists>c. cache mgr cid = Some c \<and>
           \<not> ms_greater (ms_minus (expiry c) (Ms (of_int now))) (bufferMs mgr))"
    by (cases "cache mgr cid") (auto simp: getToken_def fetchNewToken_requests)
  { fix c
    assume a: "cache mgr cid = Some c \<and> expiry c \<noteq> NaN_ms \<and> bufferMs mgr \<noteq> NaN_ms"
    then have "ms_minus (expiry c) (Ms (of_int now)) \<noteq> NaN_ms"
      by (simp add: ms_minus_NaN_iff)
    with a ms_not_greater_iff_le [of "ms_minus (expiry c) (Ms (of_int now))" "bufferMs mgr"]
    show "requests (getToken fetch now mgr cid) \<noteq> [] \<longleftrightarrow>
         ms_le (ms_minus (expiry c) (Ms (of_int now))) (bufferMs mgr)"
      by (simp add: iff) }
  { fix c
    assume a: "cache mgr cid = Some c \<and> (expiry c = NaN_ms \<or> bufferMs mgr = NaN_ms)"
    then have "ms_minus (expiry c) (Ms (of_int now)) = NaN_ms \<or> bufferMs mgr = NaN_ms"
      by (auto simp: ms_minus_NaN_iff)
    from ms_NaN_compare [OF this] a
    show "requests (getToken fetch now mgr cid) \<noteq> []"
      and "\<not> ms_le (ms_minus (expiry c) (Ms (of_int now))) (bufferMs mgr)"
      by (simp_all add: iff) }
next
  fix t
  assume a: "returned (getToken fetch now mgr cid) = Inr t \<and>
        hasValidToken now2 (manager (getToken fetch now mgr cid)) cid"
  then obtain e where c: "cache (manager (getToken fetch now mgr cid)) cid = Some \<lparr>token = t, expiry = e\<rparr>"
    using getToken_cached by blast
  from getToken_valid [OF conjunct2 [OF a] c, of fetch2]
  show "returned (getToken fetch2 now2 (manager (getToken fetch now mgr cid)) cid) = Inr t"
    and "requests (getToken fetch2 now2 (manager (getToken fetch now mgr cid)) cid) = []"
    by simp_all
next
  show "bufferMs (SASTokenManager_new None) = Ms 300000"
    by (simp add: SASTokenManager_new_def)
qed

lemma bad_expiry_cached:
  "cache (manager (getToken fetchBadExpiry 1000 (SASTokenManager_new None) ''naip'')) ''naip'' =
     Some \<lparr>token = ''sv=abc'', expiry = NaN_ms\<rparr>"
  "bufferMs (manager (getToken fetchBadExpiry 1000 (SASTokenManager_new None) ''naip'')) = Ms 300000"
  by (simp_all add: getToken_def fetchNewToken_def fetchBadExpiry_def SASTokenManager_new_def)

lemma getToken_refetch:
  "cache mgr cid = Some c \<Longrightarrow>
   \<not> ms_greater (ms_minus (expiry c) (Ms (of_int now))) (bufferMs mgr) \<Longrightarrow>
   requests (getToken fetch now mgr cid) \<noteq> []"
  by (simp add: getToken_def fetchNewToken_requests)

text \<open>
  C5 as stated fails: after a response whose expiry string is not a date, the cache has an
  entry, \<open>expiry - now <= buffer\<close> is false for it, and the next call requests a token.
\<close>

theorem getToken_invalid_expiry_counterexample:
  "cache (manager (getToken fetchBadExpiry 1000 (SASTokenManager_new None) ''naip'')) ''naip'' \<noteq> None \<and>
   \<not> (\<exists>c. cache (manager (getToken fetchBadExpiry 1000 (SASTokenManager_new None) ''naip'')) ''naip'' = Some c \<and>
          ms_le (ms_minus (expiry c) (Ms 2000))
            (bufferMs (manager (getToken fetchBadExpiry 1000 (SASTokenManager_new None) ''naip'')))) \<and>
   requests (getToken fetchOk 2000
      (manager (getToken fetchBadExpiry 1000 (SASTokenManager_new None) ''naip'')) ''naip'') \<noteq> []"
proof -
  let ?m = "manager (getToken fetchBadExpiry 1000 (SASTokenManager_new None) ''naip'')"
  have c: "cache ?m ''naip'' = Some \<lparr>token = ''sv=abc'', expiry = NaN_ms\<rparr>"
    by (rule bad_expiry_cached)
  have "requests (getToken fetchOk 2000 ?m ''naip'') \<noteq> []"
    by (rule getToken_refetch [OF c]) simp
  with c show ?thesis by simp
qed

theorem getToken_fetch_iff_witness:
  "requests (getToken fetchOk 1000 (SASTokenManager_new None) ''naip'') \<noteq> [] \<and>
   returned (getToken fetchOk 1000 (SASTokenManager_new None) ''naip'') = Inr ''sv=abc'' \<and>
   hasValidToken 2000 (manager (getToken fetchOk 1000 (SASTokenManager_new None) ''naip'')) ''naip'' \<and>
   returned (getToken fetchDown 2000
      (manager (getToken fetchOk 1000 (SASTokenManager_new None) ''naip'')) ''naip'') = Inr ''sv=abc'' \<and>
   requests (getToken fetchDown 2000
      (manager (getToken fetchOk 1000 (SASTokenManager_new None) ''naip'')) ''naip'') = [] \<and>
   requests (getToken fetchOk 3700000
      (manager (getToken fetchOk 1000 (SASTokenManager_new None) ''naip'')) ''naip'') \<noteq> [] \<and>
   requests (getToken fetchOk 2000
      (manager (getToken fetchBadExpiry 1000 (SASTokenManager_new None) ''naip'')) ''naip'') \<noteq> []"
proof -
  let ?m1 = "manager (getToken fetchOk 1000 (SASTokenManager_new None) ''naip'')"
  let ?m2 = "manager (getToken fetchBadExpiry 1000 (SASTokenManager_new None) ''naip'')"
  have miss: "cache (SASTokenManager_new None) ''naip'' = None"
    by (simp add: SASTokenManager_new_def)
  have first: "returned (getToken fetchOk 1000 (SASTokenManager_new None) ''naip'') = Inr ''sv=abc''"
    by (simp add: getToken_def fetchNewToken_def fetchOk_def SASTokenManager_new_def)
  have window: "hasValidToken 2000 ?m1 ''naip''"
    by (simp add: hasValidToken_def getToken_def fetchNewToken_def fetchOk_def SASTokenManager_new_def)
  have c1: "cache ?m1 ''naip'' = Some \<lparr>token = ''sv=abc'', expiry = Ms 4000000\<rparr>"
    "bufferMs ?m1 = Ms 300000"
    by (simp_all add: getToken_def fetchNewToken_def fetchOk_def SASTokenManager_new_def)
  have late: "ms_le (ms_minus (Ms 4000000) (Ms (of_int 3700000))) (Ms 300000)"
    by simp
  note T1 = getToken_fetch_iff [of fetchOk 1000 "SASTokenManager_new None" "''naip''" 2000 fetchDown]
  note T2 = getToken_fetch_iff [of fetchOk 3700000 ?m1 "''naip''" 0 fetchDown]
  note T3 = getToken_fetch_iff [of fetchOk 2000 ?m2 "''naip''" 0 fetchDown]
  from T1 miss have a: "requests (getToken fetchOk 1000 (SASTokenManager_new None) ''naip'') \<noteq> []"
    by simp
  from T1 [THEN conjunct2, THEN conjunct2, THEN conjunct2, THEN conjunct1, rule_format,
      OF conjI [OF first window]]
  have b: "returned (getToken fetchDown 2000 ?m1 ''naip'') = Inr ''sv=abc'' \<and>
      requests (getToken fetchDown 2000 ?m1 ''naip'') = []" .
  from T2 [THEN conjunct2, THEN conjunct1, rule_format, of "\<lparr>token = ''sv=abc'', expiry = Ms 4000000\<rparr>"]
    c1 late
  have c: "requests (getToken fetchOk 3700000 ?m1 ''naip'') \<noteq> []"
    by simp
  from T3 [THEN conjunct2, THEN conjunct2, THEN conjunct1, rule_format,
      of "\<lparr>token = ''sv=abc'', expiry = NaN_ms\<rparr>"] bad_expiry_cached
  have d: "requests (getToken fetchOk 2000 ?m2 ''naip'') \<noteq> []"
    by simp
  from a first window b c d show ?thesis by blast
qed

section \<open>Layer registry: removal\<close>

lemma addItemLayer_id:
  "id_L (fst (addItemLayer st it options gid)) = newLayerId (id_I it) gid"
  "sourceId (fst (addItemLayer st it options gid)) = newLayerId (id_I it) gid @ ''-source''"
  by (simp_all add: addItemLayer_def Let_def split_def)

lemma addItemLayer_registry:
  "layers (snd (addItemLayer st it options gid)) (newLayerId (id_I it) gid) =
     Some (fst (addItemLayer st it options gid))"
  by (simp add: addItemLayer_def Let_def split_def)

lemma addItemLayer_live:
  "style_layers (map_M (snd (addItemLayer st it options gid))) (newLayerId (id_I it) gid) =
     Some \<lparr>id_R = newLayerId (id_I it) gid, source = newLayerId (id_I it) gid @ ''-source'',
           layout_visibility = None, raster_opacity = Some 1\<rparr>"
  "sources (map_M (snd (addItemLayer st it options gid))) (newLayerId (id_I it) gid @ ''-source'') \<noteq> None"
  by (simp_all add: addItemLayer_def Let_def split_def map_addSource_def map_addLayer_def)

lemma addCollectionLayer_id:
  "id_L (fst (addCollectionLayer st c options gid)) =
     newLayerId (case title_C c of Some t \<Rightarrow> if t \<noteq> [] then t else id_C c | None \<Rightarrow> id_C c) gid"
  "sourceId (fst (addCollectionLayer st c options gid)) = id_L (fst (addCollectionLayer st c options gid)) @ ''-source''"
  by (simp_all add: addCollectionLayer_def Let_def split_def)

lemma addCollectionLayer_registry:
  "layers (snd (addCollectionLayer st c options gid)) (id_L (fst (addCollectionLayer st c options gid))) =
     Some (fst (addCollectionLayer st c options gid))"
  by (simp add: addCollectionLayer_def Let_def split_def)

lemma addCollectionLayer_live:
  "style_layers (map_M (snd (addCollectionLayer st c options gid))) (id_L (fst (addCollectionLayer st c options gid))) \<noteq> None"
  "sources (map_M (snd (addCollectionLayer st c options gid))) (sourceId (fst (addCollectionLayer st c options gid))) \<noteq> None"
  by (simp_all add: addCollectionLayer_def Let_def split_def map_addSource_def map_addLayer_def)

lemma removeLayer_registered:
  assumes "layers st lid = Some layer"
  shows "layers (removeLayer st lid) lid = None"
    and "style_layers (map_M (removeLayer st lid)) lid = None"
    and "sources (map_M (removeLayer st lid)) (sourceId layer) = None"
    and "calls (map_M (removeLayer st lid)) = calls (map_M st) @
           (if style_layers (map_M st) lid \<noteq> None then [RemoveLayer lid] else []) @
           (if sources (map_M st) (sourceId layer) \<noteq> None then [RemoveSource (sourceId layer)] else [])"
  using assms
  by (auto simp: removeLayer_def Let_def map_getLayer_def map_getSource_def
      map_removeLayer_def map_removeSource_def)

text \<open>
  C4. After an add operation (of an item or of a collection) followed by \<open>removeLayer\<close>
  on the returned id, the registry has no record for the id and the map has neither the layer
  nor its source; the calls made on the map are the removal of the layer and then the removal
  of the source. The same holds for every registered id, with each removal made only when the
  map holds the object. \<open>removeLayer\<close> on an id that is not registered returns the manager
  unchanged.
\<close>

theorem removeLayer_after_add:
  "(\<forall>layer st1.
      addItemLayer st it options gid = (layer, st1) \<or>
      addCollectionLayer st c options gid = (layer, st1) \<longrightarrow>
        layers (removeLayer st1 (id_L layer)) (id_L layer) = None \<and>
        style_layers (map_M (removeLayer st1 (id_L layer))) (id_L layer) = None \<and>
        sources (map_M (removeLayer st1 (id_L layer))) (sourceId layer) = None \<and>
        calls (map_M (removeLayer st1 (id_L layer))) =
          calls (map_M st1) @ [RemoveLayer (id_L layer), RemoveSource (sourceId layer)]) \<and>
   (\<forall>layer. layers st lid = Some layer \<longrightarrow>
        layers (removeLayer st lid) lid = None \<and>
        style_layers (map_M (removeLayer st lid)) lid = None \<and>
        sources (map_M (removeLayer st lid)) (sourceId layer) = None \<and>
        calls (map_M (removeLayer st lid)) = calls (map_M st) @
           (if style_layers (map_M st) lid \<noteq> None then [RemoveLayer lid] else []) @
           (if sources (map_M st) (sourceId layer) \<noteq> None then [RemoveSource (sourceId layer)] else [])) \<and>
   (layers st lid = None \<longrightarrow> removeLayer st lid = st)"
proof (intro conjI allI impI)
  fix layer st1
  assume "addItemLayer st it options gid = (layer, st1) \<or>
      addCollectionLayer st c options gid = (layer, st1)"
  then have reg: "layers st1 (id_L layer) = Some layer"
    and live: "style_layers (map_M st1) (id_L layer) \<noteq> None"
      "sources (map_M st1) (sourceId layer) \<noteq> None"
  proof -
    assume a: "addItemLayer st it options gid = (layer, st1) \<or>
      addCollectionLayer st c options gid = (layer, st1)"
    then show "layers st1 (id_L layer) = Some layer"
    proof
      assume e: "addItemLayer st it options gid = (layer, st1)"
      from addItemLayer_registry [of st it options gid] addItemLayer_id(1) [of st it options gid]
      show ?thesis by (simp add: e)
    next
      assume e: "addCollectionLayer st c options gid = (layer, st1)"
      from addCollectionLayer_registry [of st c options gid]
      show ?thesis by (simp add: e)
    qed
    from a show "style_layers (map_M st1) (id_L layer) \<noteq> None"
    proof
      assume e: "addItemLayer st it options gid = (layer, st1)"
      from addItemLayer_live(1) [of st it options gid] addItemLayer_id(1) [of st it options gid]
      show ?thesis by (simp add: e)
    next
      assume e: "addCollectionLayer st c options gid = (layer, st1)"
      from addCollectionLayer_live(1) [of st c options gid]
      show ?thesis by (simp add: e)
    qed
    from a show "sources (map_M st1) (sourceId layer) \<noteq> None"
    proof
      assume e: "addItemLayer st it options gid = (layer, st1)"
      from addItemLayer_live(2) [of st it options gid] addItemLayer_id [of st it options gid]
      show ?thesis by (simp add: e)
    next
      assume e: "addCollectionLayer st c options gid = (layer, st1)"
      from addCollectionLayer_live(2) [of st c options gid]
      show ?thesis by (simp add: e)
    qed
  qed
  from removeLayer_registered [OF reg] live
  show "layers (removeLayer st1 (id_L layer)) (id_L layer) = None"
    and "style_layers (map_M (removeLayer st1 (id_L layer))) (id_L layer) = None"
    and "sources (map_M (removeLayer st1 (id_L layer))) (sourceId layer) = None"
    and "calls (map_M (removeLayer st1 (id_L layer))) =
          calls (map_M st1) @ [RemoveLayer (id_L layer), RemoveSource (sourceId layer)]"
    by simp_all
next
  fix layer
  assume reg: "layers st lid = Some layer"
  from removeLayer_registered [OF reg]
  show "layers (removeLayer st lid) lid = None"
    and "style_layers (map_M (removeLayer st lid)) lid = None"
    and "sources (map_M (removeLayer st lid)) (sourceId layer) = None"
    and "calls (map_M (removeLayer st lid)) = calls (map_M st) @
           (if style_layers (map_M st) lid \<noteq> None then [RemoveLayer lid] else []) @
           (if sources (map_M st) (sourceId layer) \<noteq> None then [RemoveSource (sourceId layer)] else [])"
    by simp_all
next
  assume "layers st lid = None"
  then show "removeLayer st lid = st" by (simp add: removeLayer_def)
qed

lemma sceneLayerId: "newLayerId (id_I sceneItem) generated = ''S2A_T10-4f7h2c''"
  by (simp add: newLayerId_def sanitizeName_def sanitizeUnit_def sceneItem_def generated_def isAlnum_def)

lemma scene_added:
  "id_L (fst (addItemLayer manager0 sceneItem None generated)) = ''S2A_T10-4f7h2c''"
  "sourceId (fst (addItemLayer manager0 sceneItem None generated)) = ''S2A_T10-4f7h2c-source''"
  "type_L (fst (addItemLayer manager0 sceneItem None generated)) = Item"
  "item (fst (addItemLayer manager0 sceneItem None generated)) = Some sceneItem"
  "layers (snd (addItemLayer manager0 sceneItem None generated)) ''S2A_T10-4f7h2c'' =
     Some (fst (addItemLayer manager0 sceneItem None generated))"
  "style_layers (map_M (snd (addItemLayer manager0 sceneItem None generated))) ''S2A_T10-4f7h2c'' =
     Some \<lparr>id_R = ''S2A_T10-4f7h2c'', source = ''S2A_T10-4f7h2c-source'',
           layout_visibility = None, raster_opacity = Some 1\<rparr>"
  using addItemLayer_id [of manager0 sceneItem None generated]
    addItemLayer_registry [of manager0 sceneItem None generated]
    addItemLayer_live(1) [of manager0 sceneItem None generated]
  by (simp_all add: sceneLayerId) (simp_all add: addItemLayer_def Let_def split_def)

theorem removeLayer_after_add_witness:
  "layers (removeLayer (snd (addItemLayer manager0 sceneItem None generated)) ''S2A_T10-4f7h2c'')
     ''S2A_T10-4f7h2c'' = None \<and>
   style_layers (map_M (removeLayer (snd (addItemLayer manager0 sceneItem None generated)) ''S2A_T10-4f7h2c''))
     ''S2A_T10-4f7h2c'' = None \<and>
   sources (map_M (removeLayer (snd (addItemLayer manager0 sceneItem None generated)) ''S2A_T10-4f7h2c''))
     ''S2A_T10-4f7h2c-source'' = None \<and>
   calls (map_M (removeLayer (snd (addItemLayer manager0 sceneItem None generated)) ''S2A_T10-4f7h2c'')) =
     calls (map_M (snd (addItemLayer manager0 sceneItem None generated))) @
     [RemoveLayer ''S2A_T10-4f7h2c'', RemoveSource ''S2A_T10-4f7h2c-source''] \<and>
   removeLayer manager0 ''S2A_T10-4f7h2c'' = manager0"
proof -
  have pair: "addItemLayer manager0 sceneItem None generated =
      (fst (addItemLayer manager0 sceneItem None generated),
       snd (addItemLayer manager0 sceneItem None generated))"
    by simp
  have unknown: "layers manager0 ''S2A_T10-4f7h2c'' = None"
    by (simp add: manager0_def)
  note T = removeLayer_after_add [of manager0 sceneItem None generated demCollection "''S2A_T10-4f7h2c''"]
  from T [THEN conjunct1, rule_format, OF disjI1, OF pair]
    T [THEN conjunct2, THEN conjunct2, rule_format, OF unknown]
  show ?thesis
    by (simp add: scene_added)
qed

section \<open>Layer registry: update\<close>

lemma applyProperties_sources [simp]: "sources (applyProperties lid u m) = sources m"
  by (simp add: applyProperties_def map_setLayoutProperty_def map_setPaintProperty_def Let_def
      split: option.split)

lemma applyProperties_calls [simp]: "calls (applyProperties lid u m) = calls m @ propertyCalls lid u"
  by (simp add: applyProperties_def propertyCalls_def map_setLayoutProperty_def
      map_setPaintProperty_def Let_def split: option.split)

lemma updateLayer_props_only:
  assumes "layers st lid = Some layer" "renderParams_U u = None" "assets_U u = None"
  shows "map_M (updateLayer st lid u) = applyProperties lid u (map_M st)"
  using assms
  by (simp add: updateLayer_def applyProperties_def Let_def split: option.split)

lemma updateLayerSource_layers [simp]: "layers (updateLayerSource st lid u) = layers st"
  by (simp add: updateLayerSource_def Let_def split: option.split)

lemma updateLayer_record:
  "layers st lid = Some layer \<Longrightarrow> layers (updateLayer st lid u) lid = Some (spreadLayer layer u)"
  by (simp add: updateLayer_def Let_def split: option.split)

lemma updateLayerSource_recreates:
  assumes "layers st lid = Some layer" "hasOrigin layer"
  shows "\<exists>src. map_M (updateLayerSource st lid u) =
     map_addLayer \<lparr>id_R = lid, source = sourceId layer,
                   layout_visibility = map_getLayoutProperty lid (map_M st),
                   raster_opacity = Some (case map_getPaintProperty lid (map_M st) of Some x \<Rightarrow> x | None \<Rightarrow> 1)\<rparr>
       (map_addSource (sourceId layer) src
          (map_removeSource (sourceId layer) (map_removeLayer lid (map_M st))))"
  using assms
  by (auto simp: updateLayerSource_def hasOrigin_def Let_def split: option.split)

lemma updateLayer_with_render:
  assumes "layers st lid = Some layer" "renderParams_U u \<noteq> None \<or> assets_U u \<noteq> None"
  shows "map_M (updateLayer st lid u) =
           map_M (updateLayerSource (st\<lparr>map_M := applyProperties lid u (map_M st)\<rparr>) lid u)"
  using assms
  by (auto simp: updateLayer_def applyProperties_def Let_def split: option.split)

text \<open>
  Every record that an add operation creates has its origin, and an update that carries no
  kind and no origin field keeps it; an update of an id that is not registered does nothing.
\<close>

lemma added_layers_have_origin:
  "hasOrigin (fst (addItemLayer st it options gid))"
  "hasOrigin (fst (addCollectionLayer st c options gid))"
  by (simp_all add: hasOrigin_def addItemLayer_def addCollectionLayer_def Let_def split_def)

lemma updateLayer_keeps_origin:
  assumes "layers st lid = Some layer" and "hasOrigin layer"
    and "type_U u = None" and "item_U u = None" and "collection_U u = None"
  shows "\<exists>layer'. layers (updateLayer st lid u) lid = Some layer' \<and> hasOrigin layer'"
  using assms updateLayer_record [OF assms(1), of u]
  by (simp add: hasOrigin_def spreadLayer_def spread_def)

lemma updateLayer_other_records:
  "lid' \<noteq> lid \<Longrightarrow> layers (updateLayer st lid u) lid' = layers st lid'"
  by (simp add: updateLayer_def Let_def split: option.split)

lemma updateLayer_unknown: "layers st lid = None \<Longrightarrow> updateLayer st lid u = st"
  by (simp add: updateLayer_def)

lemma updateLayerSource_no_origin:
  "layers st lid = Some layer \<Longrightarrow> \<not> hasOrigin layer \<Longrightarrow> updateLayerSource st lid u = st"
  by (auto simp: updateLayerSource_def hasOrigin_def Let_def split: option.split)

lemma updateLayer_no_origin:
  assumes "layers st lid = Some layer" and "\<not> hasOrigin layer"
  shows "map_M (updateLayer st lid u) = applyProperties lid u (map_M st)"
proof (cases "renderParams_U u \<noteq> None \<or> assets_U u \<noteq> None")
  case True
  have "layers (st\<lparr>map_M := applyProperties lid u (map_M st)\<rparr>) lid = Some layer"
    using assms(1) by simp
  from updateLayerSource_no_origin [OF this assms(2), of u] updateLayer_with_render [OF assms(1) True]
  show ?thesis by simp
next
  case False
  with updateLayer_props_only [OF assms(1), of u] show ?thesis by simp
qed

text \<open>
  C3, as amended. For a registered layer, an update that carries neither \<open>renderParams\<close> nor
  \<open>assets\<close> leaves the sources of the map unchanged and makes no call that adds or removes a
  source. An update that carries \<open>renderParams\<close> or \<open>assets\<close>, on a record that has its
  origin (kind item with its item, or kind collection with its collection, as the add
  operations create it), removes the layer, removes the source, adds the source and adds the
  layer, each once and in this order; the layer added has the visibility read from the live
  layer just before the removal, and the opacity read there (1 when the live layer has
  none). On a record that has lost its origin (an earlier update changed its kind or origin
  fields) such an update makes no source call either.
\<close>

theorem updateLayer_source_recreation:
  assumes "layers st lid = Some layer"
  shows "(renderParams_U u = None \<and> assets_U u = None \<longrightarrow>
            sources (map_M (updateLayer st lid u)) = sources (map_M st) \<and>
            calls (map_M (updateLayer st lid u)) = calls (map_M st) @ propertyCalls lid u \<and>
            filter isSourceCall (propertyCalls lid u) = []) \<and>
         ((renderParams_U u \<noteq> None \<or> assets_U u \<noteq> None) \<and> hasOrigin layer \<longrightarrow>
            (\<exists>src recreated.
               calls (map_M (updateLayer st lid u)) =
                 calls (map_M st) @ propertyCalls lid u @
                 [RemoveLayer lid, RemoveSource (sourceId layer), AddSource (sourceId layer) src,
                  AddLayer recreated] \<and>
               filter isSourceCall
                 (propertyCalls lid u @
                  [RemoveLayer lid, RemoveSource (sourceId layer), AddSource (sourceId layer) src,
                   AddLayer recreated]) =
                 [RemoveSource (sourceId layer), AddSource (sourceId layer) src] \<and>
               sources (map_M (updateLayer st lid u)) (sourceId layer) = Some src \<and>
               style_layers (map_M (updateLayer st lid u)) lid = Some recreated \<and>
               id_R recreated = lid \<and> source recreated = sourceId layer \<and>
               layout_visibility recreated =
                 map_getLayoutProperty lid (applyProperties lid u (map_M st)) \<and>
               raster_opacity recreated =
                 Some (case map_getPaintProperty lid (applyProperties lid u (map_M st)) of
                         Some x \<Rightarrow> x | None \<Rightarrow> 1))) \<and>
         ((renderParams_U u \<noteq> None \<or> assets_U u \<noteq> None) \<and> \<not> hasOrigin layer \<longrightarrow>
            sources (map_M (updateLayer st lid u)) = sources (map_M st) \<and>
            calls (map_M (updateLayer st lid u)) = calls (map_M st) @ propertyCalls lid u \<and>
            filter isSourceCall (propertyCalls lid u) = [])"
proof (intro conjI impI)
  assume a: "(renderParams_U u \<noteq> None \<or> assets_U u \<noteq> None) \<and> \<not> hasOrigin layer"
  with updateLayer_no_origin [OF assms, of u]
  have m: "map_M (updateLayer st lid u) = applyProperties lid u (map_M st)" by simp
  show "sources (map_M (updateLayer st lid u)) = sources (map_M st)"
    by (simp add: m)
  show "calls (map_M (updateLayer st lid u)) = calls (map_M st) @ propertyCalls lid u"
    by (simp add: m)
  show "filter isSourceCall (propertyCalls lid u) = []"
    by (simp add: propertyCalls_def split: option.split)
next
  assume a: "renderParams_U u = None \<and> assets_U u = None"
  with updateLayer_props_only [OF assms, of u]
  have m: "map_M (updateLayer st lid u) = applyProperties lid u (map_M st)" by simp
  show "sources (map_M (updateLayer st lid u)) = sources (map_M st)"
    by (simp add: m)
  show "calls (map_M (updateLayer st lid u)) = calls (map_M st) @ propertyCalls lid u"
    by (simp add: m)
  show "filter isSourceCall (propertyCalls lid u) = []"
    by (simp add: propertyCalls_def split: option.split)
next
  assume a: "(renderParams_U u \<noteq> None \<or> assets_U u \<noteq> None) \<and> hasOrigin layer"
  let ?st1 = "st\<lparr>map_M := applyProperties lid u (map_M st)\<rparr>"
  let ?ly = "\<lparr>id_R = lid, source = sourceId layer,
                   layout_visibility = map_getLayoutProperty lid (map_M ?st1),
                   raster_opacity = Some (case map_getPaintProperty lid (map_M ?st1) of Some x \<Rightarrow> x | None \<Rightarrow> 1)\<rparr>"
  have reg: "layers ?st1 lid = Some layer" using assms by simp
  from updateLayerSource_recreates [OF reg conjunct2 [OF a], of u]
  obtain src where s: "map_M (updateLayerSource ?st1 lid u) =
     map_addLayer ?ly (map_addSource (sourceId layer) src
          (map_removeSource (sourceId layer) (map_removeLayer lid (map_M ?st1))))"
    by blast
  from updateLayer_with_render [OF assms conjunct1 [OF a]] s
  have m: "map_M (updateLayer st lid u) =
     map_addLayer ?ly (map_addSource (sourceId layer) src
          (map_removeSource (sourceId layer) (map_removeLayer lid (map_M ?st1))))"
    by simp
  have nosrc: "filter isSourceCall (propertyCalls lid u) = []"
    by (simp add: propertyCalls_def split: option.split)
  show "\<exists>src recreated.
               calls (map_M (updateLayer st lid u)) =
                 calls (map_M st) @ propertyCalls lid u @
                 [RemoveLayer lid, RemoveSource (sourceId layer), AddSource (sourceId layer) src,
                  AddLayer recreated] \<and>
               filter isSourceCall
                 (propertyCalls lid u @
                  [RemoveLayer lid, RemoveSource (sourceId layer), AddSource (sourceId layer) src,
                   AddLayer recreated]) =
                 [RemoveSource (sourceId layer), AddSource (sourceId layer) src] \<and>
               sources (map_M (updateLayer st lid u)) (sourceId layer) = Some src \<and>
               style_layers (map_M (updateLayer st lid u)) lid = Some recreated \<and>
               id_R recreated = lid \<and> source recreated = sourceId layer \<and>
               layout_visibility recreated =
                 map_getLayoutProperty lid (applyProperties lid u (map_M st)) \<and>
               raster_opacity recreated =
                 Some (case map_getPaintProperty lid (applyProperties lid u (map_M st)) of
                         Some x \<Rightarrow> x | None \<Rightarrow> 1)"
    apply (rule exI [of _ src])
    apply (rule exI [of _ ?ly])
    apply (simp add: m nosrc map_addLayer_def map_addSource_def map_removeSource_def map_removeLayer_def)
    done
qed

theorem updateLayer_source_recreation_witness:
  "layers (snd (addItemLayer manager0 sceneItem None generated)) ''S2A_T10-4f7h2c'' =
     Some (fst (addItemLayer manager0 sceneItem None generated)) \<and>
   hasOrigin (fst (addItemLayer manager0 sceneItem None generated)) \<and>
   sources (map_M (updateLayer (snd (addItemLayer manager0 sceneItem None generated))
                     ''S2A_T10-4f7h2c'' hideAndFade)) =
     sources (map_M (snd (addItemLayer manager0 sceneItem None generated))) \<and>
   calls (map_M (updateLayer (snd (addItemLayer manager0 sceneItem None generated))
                     ''S2A_T10-4f7h2c'' hideAndFade)) =
     calls (map_M (snd (addItemLayer manager0 sceneItem None generated))) @
     [SetLayoutProperty ''S2A_T10-4f7h2c'' Hidden, SetPaintProperty ''S2A_T10-4f7h2c'' (1/2)] \<and>
   (\<exists>src.
      calls (map_M (updateLayer (snd (addItemLayer manager0 sceneItem None generated))
                     ''S2A_T10-4f7h2c'' falseColorHidden)) =
        calls (map_M (snd (addItemLayer manager0 sceneItem None generated))) @
        [SetLayoutProperty ''S2A_T10-4f7h2c'' Hidden,
         RemoveLayer ''S2A_T10-4f7h2c'', RemoveSource ''S2A_T10-4f7h2c-source'',
         AddSource ''S2A_T10-4f7h2c-source'' src,
         AddLayer \<lparr>id_R = ''S2A_T10-4f7h2c'', source = ''S2A_T10-4f7h2c-source'',
                   layout_visibility = Some Hidden, raster_opacity = Some 1\<rparr>])"
proof -
  let ?st1 = "snd (addItemLayer manager0 sceneItem None generated)"
  let ?layer = "fst (addItemLayer manager0 sceneItem None generated)"
  have reg: "layers ?st1 ''S2A_T10-4f7h2c'' = Some ?layer"
    by (simp add: scene_added)
  have origin: "hasOrigin ?layer"
    by (simp add: hasOrigin_def scene_added)
  have props: "renderParams_U hideAndFade = None \<and> assets_U hideAndFade = None"
    by (simp add: hideAndFade_def noUpdates_def)
  have render: "renderParams_U falseColorHidden \<noteq> None \<or> assets_U falseColorHidden \<noteq> None"
    by (simp add: falseColorHidden_def noUpdates_def)
  have calls1: "propertyCalls ''S2A_T10-4f7h2c'' hideAndFade =
      [SetLayoutProperty ''S2A_T10-4f7h2c'' Hidden, SetPaintProperty ''S2A_T10-4f7h2c'' (1/2)]"
    by (simp add: propertyCalls_def hideAndFade_def noUpdates_def)
  have calls2: "propertyCalls ''S2A_T10-4f7h2c'' falseColorHidden =
      [SetLayoutProperty ''S2A_T10-4f7h2c'' Hidden]"
    by (simp add: propertyCalls_def falseColorHidden_def noUpdates_def)
  have vis: "map_getLayoutProperty ''S2A_T10-4f7h2c''
        (applyProperties ''S2A_T10-4f7h2c'' falseColorHidden (map_M ?st1)) = Some Hidden"
    by (simp add: map_getLayoutProperty_def applyProperties_def map_setLayoutProperty_def
        falseColorHidden_def noUpdates_def scene_added)
  have opa: "map_getPaintProperty ''S2A_T10-4f7h2c''
        (applyProperties ''S2A_T10-4f7h2c'' falseColorHidden (map_M ?st1)) = Some 1"
    by (simp add: map_getPaintProperty_def applyProperties_def map_setLayoutProperty_def
        falseColorHidden_def noUpdates_def scene_added)
  from updateLayer_source_recreation [OF reg, of hideAndFade] props calls1
  have part1: "sources (map_M (updateLayer ?st1 ''S2A_T10-4f7h2c'' hideAndFade)) = sources (map_M ?st1) \<and>
      calls (map_M (updateLayer ?st1 ''S2A_T10-4f7h2c'' hideAndFade)) = calls (map_M ?st1) @
      [SetLayoutProperty ''S2A_T10-4f7h2c'' Hidden, SetPaintProperty ''S2A_T10-4f7h2c'' (1/2)]"
    by simp
  from updateLayer_source_recreation [OF reg, of falseColorHidden] render origin
  obtain src recreated where
    c: "calls (map_M (updateLayer ?st1 ''S2A_T10-4f7h2c'' falseColorHidden)) =
          calls (map_M ?st1) @ propertyCalls ''S2A_T10-4f7h2c'' falseColorHidden @
          [RemoveLayer ''S2A_T10-4f7h2c'', RemoveSource (sourceId ?layer),
           AddSource (sourceId ?layer) src, AddLayer recreated]"
    and r: "id_R recreated = ''S2A_T10-4f7h2c''" "source recreated = sourceId ?layer"
      "layout_visibility recreated = map_getLayoutProperty ''S2A_T10-4f7h2c''
          (applyProperties ''S2A_T10-4f7h2c'' falseColorHidden (map_M ?st1))"
      "raster_opacity recreated = Some (case map_getPaintProperty ''S2A_T10-4f7h2c''
          (applyProperties ''S2A_T10-4f7h2c'' falseColorHidden (map_M ?st1)) of Some x \<Rightarrow> x | None \<Rightarrow> 1)"
    by blast
  from r have "recreated = \<lparr>id_R = ''S2A_T10-4f7h2c'', source = ''S2A_T10-4f7h2c-source'',
                   layout_visibility = Some Hidden, raster_opacity = Some 1\<rparr>"
    by (cases recreated) (simp add: vis opa scene_added)
  with c have "calls (map_M (updateLayer ?st1 ''S2A_T10-4f7h2c'' falseColorHidden)) =
        calls (map_M ?st1) @
        [SetLayoutProperty ''S2A_T10-4f7h2c'' Hidden,
         RemoveLayer ''S2A_T10-4f7h2c'', RemoveSource ''S2A_T10-4f7h2c-source'',
         AddSource ''S2A_T10-4f7h2c-source'' src,
         AddLayer \<lparr>id_R = ''S2A_T10-4f7h2c'', source = ''S2A_T10-4f7h2c-source'',
                   layout_visibility = Some Hidden, raster_opacity = Some 1\<rparr>]"
    by (simp add: calls2 scene_added)
  then have part2: "\<exists>src. calls (map_M (updateLayer ?st1 ''S2A_T10-4f7h2c'' falseColorHidden)) =
        calls (map_M ?st1) @
        [SetLayoutProperty ''S2A_T10-4f7h2c'' Hidden,
         RemoveLayer ''S2A_T10-4f7h2c'', RemoveSource ''S2A_T10-4f7h2c-source'',
         AddSource ''S2A_T10-4f7h2c-source'' src,
         AddLayer \<lparr>id_R = ''S2A_T10-4f7h2c'', source = ''S2A_T10-4f7h2c-source'',
                   layout_visibility = Some Hidden, raster_opacity = Some 1\<rparr>]"
    by blast
  from reg origin part1 part2 show ?thesis by blast
qed

text \<open>
  C3 as stated fails: once an update has set the kind of the scene's record to \<open>mosaic\<close>,
  an update that carries \<open>renderParams\<close> makes no call on the map.
\<close>

theorem updateLayer_retyped_counterexample:
  "layers (updateLayer (snd (addItemLayer manager0 sceneItem None generated))
             ''S2A_T10-4f7h2c'' retype) ''S2A_T10-4f7h2c'' \<noteq> None \<and>
   renderParams_U falseColor \<noteq> None \<and>
   calls (map_M (updateLayer
                   (updateLayer (snd (addItemLayer manager0 sceneItem None generated))
                      ''S2A_T10-4f7h2c'' retype)
                   ''S2A_T10-4f7h2c'' falseColor)) =
     calls (map_M (updateLayer (snd (addItemLayer manager0 sceneItem None generated))
                     ''S2A_T10-4f7h2c'' retype)) \<and>
   sources (map_M (updateLayer
                     (updateLayer (snd (addItemLayer manager0 sceneItem None generated))
                        ''S2A_T10-4f7h2c'' retype)
                     ''S2A_T10-4f7h2c'' falseColor)) =
     sources (map_M (updateLayer (snd (addItemLayer manager0 sceneItem None generated))
                       ''S2A_T10-4f7h2c'' retype))"
proof -
  let ?layer = "fst (addItemLayer manager0 sceneItem None generated)"
  let ?st1 = "snd (addItemLayer manager0 sceneItem None generated)"
  let ?st2 = "updateLayer ?st1 ''S2A_T10-4f7h2c'' retype"
  have reg1: "layers ?st1 ''S2A_T10-4f7h2c'' = Some ?layer"
    by (simp add: scene_added)
  have reg2: "layers ?st2 ''S2A_T10-4f7h2c'' = Some (spreadLayer ?layer retype)"
    by (rule updateLayer_record [OF reg1])
  have mosaic: "\<not> hasOrigin (spreadLayer ?layer retype)"
    by (simp add: hasOrigin_def spreadLayer_def retype_def noUpdates_def)
  have none: "propertyCalls ''S2A_T10-4f7h2c'' falseColor = []"
    by (simp add: propertyCalls_def falseColor_def noUpdates_def)
  have r: "renderParams_U falseColor \<noteq> None"
    by (simp add: falseColor_def noUpdates_def)
  have "map_M (updateLayer ?st2 ''S2A_T10-4f7h2c'' falseColor) =
      applyProperties ''S2A_T10-4f7h2c'' falseColor (map_M ?st2)"
    by (rule updateLayer_no_origin [OF reg2 mosaic])
  then have "calls (map_M (updateLayer ?st2 ''S2A_T10-4f7h2c'' falseColor)) = calls (map_M ?st2)"
    and "sources (map_M (updateLayer ?st2 ''S2A_T10-4f7h2c'' falseColor)) = sources (map_M ?st2)"
    by (simp_all add: none)
  with reg2 r show ?thesis by simp
qed

section \<open>Layer registry: what an add operation resolves\<close>

lemma addItemLayer_bundle:
  "renderParams (fst (addItemLayer st it options gid)) =
     (chosenBundle it options)\<lparr>assets := Some (assets_L (fst (addItemLayer st it options gid)))\<rparr>"
  by (simp add: addItemLayer_def chosenBundle_def itemDefaultPreset_def itemCollectionId_def
      Let_def split_def split: option.split)

lemma addItemLayer_assets:
  "assets_L (fst (addItemLayer st it options gid)) =
     (case opt_assets options of
        Some a \<Rightarrow> a
      | None \<Rightarrow> (case assets (chosenBundle it options) of
                   Some a \<Rightarrow> a
                 | None \<Rightarrow> getDefaultAssets it))"
  by (simp add: addItemLayer_def chosenBundle_def itemDefaultPreset_def itemCollectionId_def
      Let_def split_def split: option.split)

lemma addItemLayer_presetName:
  "presetName (fst (addItemLayer st it options gid)) =
     (if opt_renderParams options = None \<and> opt_assets options = None
      then (case itemDefaultPreset it of Some dp \<Rightarrow> Some (name dp) | None \<Rightarrow> opt_presetName options)
      else opt_presetName options)"
  by (simp add: addItemLayer_def itemDefaultPreset_def itemCollectionId_def
      Let_def split_def split: option.split)

lemma addItemLayer_source:
  "sources (map_M (snd (addItemLayer st it options gid))) (sourceId (fst (addItemLayer st it options gid))) =
     Some \<lparr>tiles = [getItemTileUrl (tilerClient st) (itemCollectionId it) (id_I it)
                       (renderParams (fst (addItemLayer st it options gid)))],
           tileSize = 256, bounds = Some (bbox_I it), attribution = attributionText\<rparr>"
  by (simp add: addItemLayer_def itemCollectionId_def Let_def split_def map_addSource_def map_addLayer_def)

lemma addCollectionLayer_in_sync:
  "assets (renderParams (fst (addCollectionLayer st c options gid))) =
     Some (assets_L (fst (addCollectionLayer st c options gid)))"
  by (simp add: addCollectionLayer_def Let_def split_def)

lemma addItemLayer_in_sync:
  "assets (renderParams (fst (addItemLayer st it options gid))) =
     Some (assets_L (fst (addItemLayer st it options gid)))"
  by (simp add: addItemLayer_bundle)

lemma scene_preset: "itemDefaultPreset sceneItem = Some (sentinel2L2aPresets ! 0)"
  by (simp add: itemDefaultPreset_def itemCollectionId_def sceneItem_def getDefaultPreset_def
      getRenderConfig_def RENDER_CONFIGS_def sentinel2L2aPresets_def)

lemma scene_default_record:
  "assets_L (fst (addItemLayer manager0 sceneItem None generated)) = [''visual'']"
  "renderParams (fst (addItemLayer manager0 sceneItem None generated)) = emptyParams\<lparr>assets := Some [''visual'']\<rparr>"
  by (simp_all add: addItemLayer_assets addItemLayer_bundle chosenBundle_def opt_assets_def opt_renderParams_def
      scene_preset sentinel2L2aPresets_def emptyParams_def)

lemma url_visual_rescale:
  "getItemTileUrl (TiTilerClient_new None) ''sentinel-2-l2a'' ''S2A_T10''
     (emptyParams\<lparr>assets := Some [''visual''], rescale := Some ''0,3000''\<rparr>) =
   ''https://planetarycomputer.microsoft.com/api/data/v1/item/tiles/WebMercatorQuad/{z}/{x}/{y}@1x?collection=sentinel-2-l2a&item=S2A_T10&assets=visual&rescale=0%2C3000''"
  by code_simp

text \<open>
  C2, as amended. \<open>addItemLayer\<close> resolves the asset list by the priority: explicit
  \<open>options.assets\<close>; then the assets of explicit \<open>options.renderParams\<close>; then, when neither
  option is given, the assets of the collection's default preset; then the heuristic default
  assets. The other parameters are those of \<open>options.renderParams\<close> when it is given, else
  (when \<open>options.assets\<close> is absent too) those of the default preset, else none; the
  bundle's \<open>assets\<close> field is always overwritten with the resolved list, and the tile URL
  of the registered source is built from that bundle.
\<close>

theorem addItemLayer_resolution_order:
  "(\<forall>a. opt_assets options = Some a \<longrightarrow> assets_L (fst (addItemLayer st it options gid)) = a) \<and>
   (\<forall>r a. opt_assets options = None \<and> opt_renderParams options = Some r \<and> assets r = Some a \<longrightarrow>
      assets_L (fst (addItemLayer st it options gid)) = a) \<and>
   (\<forall>dp a. opt_assets options = None \<and> opt_renderParams options = None \<and>
      itemDefaultPreset it = Some dp \<and> assets (params dp) = Some a \<longrightarrow>
      assets_L (fst (addItemLayer st it options gid)) = a) \<and>
   (opt_assets options = None \<and> assets (chosenBundle it options) = None \<longrightarrow>
      assets_L (fst (addItemLayer st it options gid)) = getDefaultAssets it) \<and>
   (\<forall>r. opt_renderParams options = Some r \<longrightarrow>
      renderParams (fst (addItemLayer st it options gid)) =
        r\<lparr>assets := Some (assets_L (fst (addItemLayer st it options gid)))\<rparr>) \<and>
   (\<forall>a. opt_renderParams options = None \<and> opt_assets options = Some a \<longrightarrow>
      renderParams (fst (addItemLayer st it options gid)) = emptyParams\<lparr>assets := Some a\<rparr>) \<and>
   (\<forall>dp. opt_renderParams options = None \<and> opt_assets options = None \<and>
      itemDefaultPreset it = Some dp \<longrightarrow>
      renderParams (fst (addItemLayer st it options gid)) =
        (params dp)\<lparr>assets := Some (assets_L (fst (addItemLayer st it options gid)))\<rparr> \<and>
      presetName (fst (addItemLayer st it options gid)) = Some (name dp)) \<and>
   (opt_renderParams options = None \<and> opt_assets options = None \<and> itemDefaultPreset it = None \<longrightarrow>
      renderParams (fst (addItemLayer st it options gid)) =
        emptyParams\<lparr>assets := Some (getDefaultAssets it)\<rparr>) \<and>
   sources (map_M (snd (addItemLayer st it options gid)))
       (sourceId (fst (addItemLayer st it options gid))) =
     Some \<lparr>tiles = [getItemTileUrl (tilerClient st) (itemCollectionId it) (id_I it)
                       (renderParams (fst (addItemLayer st it options gid)))],
           tileSize = 256, bounds = Some (bbox_I it), attribution = attributionText\<rparr>"
proof (intro conjI allI impI)
  show "sources (map_M (snd (addItemLayer st it options gid)))
       (sourceId (fst (addItemLayer st it options gid))) =
     Some \<lparr>tiles = [getItemTileUrl (tilerClient st) (itemCollectionId it) (id_I it)
                       (renderParams (fst (addItemLayer st it options gid)))],
           tileSize = 256, bounds = Some (bbox_I it), attribution = attributionText\<rparr>"
    by (rule addItemLayer_source)
qed (auto simp: addItemLayer_assets addItemLayer_bundle addItemLayer_presetName chosenBundle_def
       emptyParams_def)

lemma url_both:
  "getItemTileUrl (TiTilerClient_new None) ''sentinel-2-l2a'' ''S2A_T10''
     (falseColorParams\<lparr>assets := Some [''visual'']\<rparr>) =
   ''https://planetarycomputer.microsoft.com/api/data/v1/item/tiles/WebMercatorQuad/{z}/{x}/{y}@1x?collection=sentinel-2-l2a&item=S2A_T10&assets=visual&rescale=0%2C3000''"
  by code_simp

text \<open>
  C2 as stated fails: with \<open>options.renderParams\<close> carrying the assets \<open>B08, B04, B03\<close> and
  \<open>options.assets = [visual]\<close>, the bundle used carries \<open>visual\<close>.
\<close>

theorem addItemLayer_priority_counterexample:
  "opt_renderParams (Some optionsBoth) = Some falseColorParams \<and>
   opt_assets (Some optionsBoth) = Some [''visual''] \<and>
   assets falseColorParams = Some [''B08'', ''B04'', ''B03''] \<and>
   assets (renderParams (fst (addItemLayer manager0 sceneItem (Some optionsBoth) generated))) =
     Some [''visual''] \<and>
   renderParams (fst (addItemLayer manager0 sceneItem (Some optionsBoth) generated)) \<noteq> falseColorParams \<and>
   assets_L (fst (addItemLayer manager0 sceneItem (Some optionsBoth) generated)) \<noteq>
     [''B08'', ''B04'', ''B03'']"
  by (simp add: addItemLayer_def Let_def split_def opt_renderParams_def opt_assets_def
      optionsBoth_def falseColorParams_def emptyParams_def)

theorem addItemLayer_resolution_order_witness:
  "opt_assets (Some optionsBoth) = Some [''visual''] \<and>
   opt_renderParams (Some optionsBoth) = Some falseColorParams \<and>
   assets_L (fst (addItemLayer manager0 sceneItem (Some optionsBoth) generated)) = [''visual''] \<and>
   renderParams (fst (addItemLayer manager0 sceneItem (Some optionsBoth) generated)) =
     falseColorParams\<lparr>assets := Some [''visual'']\<rparr> \<and>
   map_option tiles (sources (map_M (snd (addItemLayer manager0 sceneItem (Some optionsBoth) generated)))
       ''S2A_T10-4f7h2c-source'') =
     Some [''https://planetarycomputer.microsoft.com/api/data/v1/item/tiles/WebMercatorQuad/{z}/{x}/{y}@1x?collection=sentinel-2-l2a&item=S2A_T10&assets=visual&rescale=0%2C3000'']"
proof -
  have o: "opt_assets (Some optionsBoth) = Some [''visual'']"
    "opt_renderParams (Some optionsBoth) = Some falseColorParams"
    by (simp_all add: opt_assets_def opt_renderParams_def optionsBoth_def)
  have sid: "sourceId (fst (addItemLayer manager0 sceneItem (Some optionsBoth) generated)) =
      ''S2A_T10-4f7h2c-source''"
    by (simp add: addItemLayer_id sceneLayerId)
  have c: "tilerClient manager0 = TiTilerClient_new None" "itemCollectionId sceneItem = ''sentinel-2-l2a''"
    "id_I sceneItem = ''S2A_T10''"
    by (simp_all add: manager0_def itemCollectionId_def sceneItem_def)
  note T = addItemLayer_resolution_order [of "Some optionsBoth" manager0 sceneItem generated]
  from T [THEN conjunct1, rule_format, OF o(1)]
  have a: "assets_L (fst (addItemLayer manager0 sceneItem (Some optionsBoth) generated)) = [''visual'']" .
  from T o have b: "renderParams (fst (addItemLayer manager0 sceneItem (Some optionsBoth) generated)) =
     falseColorParams\<lparr>assets := Some [''visual'']\<rparr>"
    by (simp add: a)
  from T have "sources (map_M (snd (addItemLayer manager0 sceneItem (Some optionsBoth) generated)))
       (sourceId (fst (addItemLayer manager0 sceneItem (Some optionsBoth) generated))) =
     Some \<lparr>tiles = [getItemTileUrl (tilerClient manager0) (itemCollectionId sceneItem) (id_I sceneItem)
                       (renderParams (fst (addItemLayer manager0 sceneItem (Some optionsBoth) generated)))],
           tileSize = 256, bounds = Some (bbox_I sceneItem), attribution = attributionText\<rparr>"
    by blast
  then have u: "map_option tiles (sources (map_M (snd (addItemLayer manager0 sceneItem (Some optionsBoth) generated)))
       ''S2A_T10-4f7h2c-source'') =
     Some [''https://planetarycomputer.microsoft.com/api/data/v1/item/tiles/WebMercatorQuad/{z}/{x}/{y}@1x?collection=sentinel-2-l2a&item=S2A_T10&assets=visual&rescale=0%2C3000'']"
    by (simp add: sid c b url_both)
  from o a b u show ?thesis by blast
qed

section \<open>Layer registry: the record after an update\<close>

lemma updateLayerSource_item_source:
  assumes "layers st lid = Some layer" "type_L layer = Item" "item layer = Some it"
  shows "sources (map_M (updateLayerSource st lid u)) (sourceId layer) =
     Some \<lparr>tiles = [getItemTileUrl (tilerClient st) (itemCollectionId it) (id_I it)
                       ((spreadParams (renderParams layer) (renderParams_U u))
                          \<lparr>assets := Some (case assets_U u of Some a \<Rightarrow> a | None \<Rightarrow> assets_L layer)\<rparr>)],
           tileSize = 256, bounds = Some (bbox_I it), attribution = attributionText\<rparr>"
  using assms
  by (simp add: updateLayerSource_def itemCollectionId_def Let_def map_addSource_def map_addLayer_def)

text \<open>An update of visibility or opacity alone keeps a record's two asset lists equal.\<close>

lemma updateLayer_props_keep_sync:
  assumes "layers st lid = Some layer" and "assets (renderParams layer) = Some (assets_L layer)"
    and "renderParams_U u = None" and "assets_U u = None"
  shows "\<exists>layer'. layers (updateLayer st lid u) lid = Some layer' \<and>
           assets (renderParams layer') = Some (assets_L layer')"
  using assms updateLayer_record [OF assms(1), of u]
  by (simp add: spreadLayer_def)

text \<open>
  C1. The add operations store a record whose \<open>assets\<close> equal its \<open>renderParams.assets\<close>.
  \<open>updateLayer\<close> does not keep this: on the scene added with no options (assets
  \<open>visual\<close>), an update that carries a \<open>renderParams\<close> with the assets \<open>B08, B04, B03\<close>
  and no \<open>assets\<close> stores a record whose \<open>assets\<close> are still \<open>visual\<close> and whose
  \<open>renderParams.assets\<close> are \<open>B08, B04, B03\<close>; the tile URL it registers asks for
  \<open>visual\<close>.
\<close>

theorem updateLayer_assets_out_of_sync:
  "assets (renderParams (fst (addItemLayer manager0 sceneItem None generated))) =
     Some (assets_L (fst (addItemLayer manager0 sceneItem None generated))) \<and>
   (\<exists>r. layers (updateLayer (snd (addItemLayer manager0 sceneItem None generated))
                  ''S2A_T10-4f7h2c'' falseColor) ''S2A_T10-4f7h2c'' = Some r \<and>
        assets_L r = [''visual''] \<and>
        assets (renderParams r) = Some [''B08'', ''B04'', ''B03''] \<and>
        assets (renderParams r) \<noteq> Some (assets_L r)) \<and>
   map_option tiles
     (sources (map_M (updateLayer (snd (addItemLayer manager0 sceneItem None generated))
                        ''S2A_T10-4f7h2c'' falseColor)) ''S2A_T10-4f7h2c-source'') =
     Some [''https://planetarycomputer.microsoft.com/api/data/v1/item/tiles/WebMercatorQuad/{z}/{x}/{y}@1x?collection=sentinel-2-l2a&item=S2A_T10&assets=visual&rescale=0%2C3000'']"
proof -
  let ?layer = "fst (addItemLayer manager0 sceneItem None generated)"
  let ?st1 = "snd (addItemLayer manager0 sceneItem None generated)"
  let ?st2 = "?st1\<lparr>map_M := applyProperties ''S2A_T10-4f7h2c'' falseColor (map_M ?st1)\<rparr>"
  have reg: "layers ?st1 ''S2A_T10-4f7h2c'' = Some ?layer"
    by (simp add: scene_added)
  have r: "layers (updateLayer ?st1 ''S2A_T10-4f7h2c'' falseColor) ''S2A_T10-4f7h2c'' =
      Some (spreadLayer ?layer falseColor)"
    by (rule updateLayer_record [OF reg])
  have a: "assets_L (spreadLayer ?layer falseColor) = [''visual'']"
    by (simp add: spreadLayer_def falseColor_def noUpdates_def scene_default_record)
  have b: "assets (renderParams (spreadLayer ?layer falseColor)) = Some [''B08'', ''B04'', ''B03'']"
    by (simp add: spreadLayer_def falseColor_def noUpdates_def falseColorParams_def)
  have render: "renderParams_U falseColor \<noteq> None \<or> assets_U falseColor \<noteq> None"
    by (simp add: falseColor_def noUpdates_def)
  have reg2: "layers ?st2 ''S2A_T10-4f7h2c'' = Some ?layer"
    by (simp add: scene_added)
  have client: "tilerClient ?st2 = TiTilerClient_new None"
    by (simp add: addItemLayer_def Let_def split_def manager0_def)
  have merged: "(spreadParams (renderParams ?layer) (renderParams_U falseColor))
        \<lparr>assets := Some (case assets_U falseColor of Some a \<Rightarrow> a | None \<Rightarrow> assets_L ?layer)\<rparr> =
      emptyParams\<lparr>assets := Some [''visual''], rescale := Some ''0,3000''\<rparr>"
    by (simp add: scene_default_record falseColor_def noUpdates_def falseColorParams_def
        spreadParams_def spread_def emptyParams_def)
  from updateLayerSource_item_source [OF reg2 scene_added(3) scene_added(4), of falseColor]
  have "sources (map_M (updateLayerSource ?st2 ''S2A_T10-4f7h2c'' falseColor)) ''S2A_T10-4f7h2c-source'' =
      Some \<lparr>tiles = [getItemTileUrl (TiTilerClient_new None) ''sentinel-2-l2a'' ''S2A_T10''
                        (emptyParams\<lparr>assets := Some [''visual''], rescale := Some ''0,3000''\<rparr>)],
           tileSize = 256, bounds = Some (bbox_I sceneItem), attribution = attributionText\<rparr>"
    by (simp only: merged client scene_added) (simp add: itemCollectionId_def sceneItem_def)
  with updateLayer_with_render [OF reg render]
  have u: "map_option tiles (sources (map_M (updateLayer ?st1 ''S2A_T10-4f7h2c'' falseColor))
        ''S2A_T10-4f7h2c-source'') =
     Some [''https://planetarycomputer.microsoft.com/api/data/v1/item/tiles/WebMercatorQuad/{z}/{x}/{y}@1x?collection=sentinel-2-l2a&item=S2A_T10&assets=visual&rescale=0%2C3000'']"
    by (simp add: url_visual_rescale)
  from r a b u show ?thesis by (simp add: addItemLayer_in_sync)
qed

text \<open>The record that the update above leaves is one whose two asset lists differ.\<close>

theorem updateLayer_assets_out_of_sync_witness:
  "\<exists>r. layers (updateLayer (snd (addItemLayer manager0 sceneItem None generated))
                 ''S2A_T10-4f7h2c'' falseColor) ''S2A_T10-4f7h2c'' = Some r \<and>
       assets (renderParams r) \<noteq> Some (assets_L r)"
  using updateLayer_assets_out_of_sync by blast

section \<open>Layer registry: the default-asset heuristic\<close>

lemma take_eq_iff_prefix: "take (length p) xs = p \<longleftrightarrow> (\<exists>post. xs = p @ post)"
proof
  assume "take (length p) xs = p"
  then have "xs = p @ drop (length p) xs"
    by (metis append_take_drop_id)
  then show "\<exists>post. xs = p @ post" ..
next
  assume "\<exists>post. xs = p @ post"
  then show "take (length p) xs = p" by auto
qed

lemma includes_str_iff: "includes_str s p \<longleftrightarrow> contains_substring s p"
proof (induction s)
  case Nil
  show ?case by (simp add: contains_substring_def)
next
  case (Cons c s)
  have "contains_substring (c # s) p \<longleftrightarrow> (\<exists>post. c # s = p @ post) \<or> contains_substring s p"
  proof
    assume "contains_substring (c # s) p"
    then obtain pre post where e: "c # s = pre @ p @ post"
      by (auto simp: contains_substring_def)
    show "(\<exists>post. c # s = p @ post) \<or> contains_substring s p"
    proof (cases pre)
      case Nil
      with e show ?thesis by auto
    next
      case (Cons a pre')
      with e have "s = pre' @ p @ post" by simp
      then show ?thesis by (auto simp: contains_substring_def)
    qed
  next
    assume "(\<exists>post. c # s = p @ post) \<or> contains_substring s p"
    then show "contains_substring (c # s) p"
    proof
      assume "\<exists>post. c # s = p @ post"
      then obtain post where "c # s = [] @ p @ post" by auto
      then show ?thesis unfolding contains_substring_def by blast
    next
      assume "contains_substring s p"
      then obtain pre post where "s = pre @ p @ post"
        by (auto simp: contains_substring_def)
      then have "c # s = (c # pre) @ p @ post" by simp
      then show ?thesis unfolding contains_substring_def by blast
    qed
  qed
  with Cons show ?case
    by (simp add: take_eq_iff_prefix del: take_Suc_Cons)
qed

lemma firstPreferred_filter:
  "firstPreferred ns as = (case filter (\<lambda>n. n \<in> fst ` set as) ns of n # _ \<Rightarrow> Some n | [] \<Rightarrow> None)"
  by (induction ns) (auto simp: map_of_eq_None_iff)

lemma isCogType_iff:
  "isCogType a \<longleftrightarrow> (\<exists>t. type_A a = Some t \<and>
      (contains_substring t ''tiff'' \<or> contains_substring t ''geotiff'' \<or> contains_substring t ''cog''))"
  by (cases "type_A a") (auto simp: isCogType_def includes_str_iff contains_substring_def)

lemma firstCogAsset_filter:
  "firstCogAsset as = (case filter (\<lambda>e. isCogType (snd e)) as of e # _ \<Rightarrow> Some (fst e) | [] \<Rightarrow> None)"
  by (induction as) auto

lemma find_as_filter:
  "List.find P xs = (case filter P xs of x # _ \<Rightarrow> Some x | [] \<Rightarrow> None)"
  by (induction xs) auto

lemma notExcluded_iff:
  "notExcluded k \<longleftrightarrow> (\<forall>p \<in> set [''thumbnail'', ''overview'', ''metadata'', ''tilejson'',
                                  ''rendered_preview'']. \<not> contains_substring (toLowerCase k) p)"
  by (simp add: notExcluded_def excludePatterns_def includes_str_iff)

lemma defaultAssetsOf_scan:
  assumes "[] \<notin> fst ` set as"
  shows "defaultAssetsOf as = scanDefaultAssets as"
proof -
  have nonempty: "\<And>k ks. filter notExcluded (map fst as) = k # ks \<Longrightarrow> k \<noteq> []"
  proof -
    fix k ks assume "filter notExcluded (map fst as) = k # ks"
    then have "k \<in> set (filter notExcluded (map fst as))" by simp
    then have "k \<in> fst ` set as" by auto
    with assms show "k \<noteq> []" by metis
  qed
  have cog: "(\<lambda>e. isCogType (snd e)) = (\<lambda>e. \<exists>t. type_A (snd e) = Some t \<and>
                      (contains_substring t ''tiff'' \<or> contains_substring t ''geotiff'' \<or>
                       contains_substring t ''cog''))"
    by (simp add: isCogType_iff)
  have excl: "notExcluded = (\<lambda>k. \<forall>p \<in> set [''thumbnail'', ''overview'', ''metadata'', ''tilejson'',
                                              ''rendered_preview'']. \<not> contains_substring (toLowerCase k) p)"
    by (rule ext) (rule notExcluded_iff)
  show ?thesis
    unfolding defaultAssetsOf_def scanDefaultAssets_def Let_def
      firstPreferred_filter firstCogAsset_filter find_as_filter preferredAssets_def
      cog [symmetric] excl [symmetric]
    using nonempty
    by (auto split: list.splits)
qed


text \<open>
  Where the code and the scan of the specification agree: when the options give neither
  \<open>renderParams\<close> nor \<open>assets\<close> and the item's collection has no default preset, the
  assets that \<open>addItemLayer\<close> selects are those of the scan, for every asset map that has
  no empty-string key. In particular an item with the assets \<open>thumbnail\<close> and \<open>data\<close>, the
  latter of a type that contains \<open>geotiff\<close>, gets \<open>[data]\<close>.
\<close>

lemma defaultAssets_agree_with_scan:
  assumes "opt_renderParams options = None" and "opt_assets options = None"
    and "itemDefaultPreset it = None" and "[] \<notin> fst ` set (assets_I it)"
  shows "assets_L (fst (addItemLayer st it options gid)) = scanDefaultAssets (assets_I it) \<and>
         (\<forall>thumb dataAsset ty.
            assets_I it = [(''thumbnail'', thumb), (''data'', dataAsset)] \<and>
            type_A dataAsset = Some ty \<and> contains_substring ty ''geotiff'' \<longrightarrow>
            assets_L (fst (addItemLayer st it options gid)) = [''data''])"
proof -
  have "assets (chosenBundle it options) = None"
    using assms(1-3) by (simp add: chosenBundle_def emptyParams_def)
  with assms(2) have "assets_L (fst (addItemLayer st it options gid)) = getDefaultAssets it"
    by (simp add: addItemLayer_assets)
  with defaultAssetsOf_scan [OF assms(4)]
  have scan: "assets_L (fst (addItemLayer st it options gid)) = scanDefaultAssets (assets_I it)"
    by (simp add: getDefaultAssets_def)
  have "scanDefaultAssets [(''thumbnail'', thumb), (''data'', dataAsset)] = [''data'']"
    for thumb dataAsset
    by (simp add: scanDefaultAssets_def)
  with scan show ?thesis by simp
qed

lemma preview_item_default_assets:
  "opt_renderParams None = None \<and> opt_assets None = None \<and> itemDefaultPreset previewItem = None \<and>
   [] \<notin> fst ` set (assets_I previewItem) \<and>
   scanDefaultAssets (assets_I previewItem) = [''data''] \<and>
   assets_L (fst (addItemLayer manager0 previewItem None generated)) = [''data'']"
proof -
  have h: "opt_renderParams None = None" "opt_assets None = None" "itemDefaultPreset previewItem = None"
    "[] \<notin> fst ` set (assets_I previewItem)"
    by (simp_all add: opt_renderParams_def opt_assets_def itemDefaultPreset_def itemCollectionId_def
        previewItem_def)
  have e: "assets_I previewItem =
      [(''thumbnail'', \<lparr>href = ''t.png'', type_A = Some ''image/png''\<rparr>),
       (''data'', \<lparr>href = ''d.tif'', type_A = Some ''image/tiff; application=geotiff''\<rparr>)]"
    by (simp add: previewItem_def)
  have g: "contains_substring ''image/tiff; application=geotiff'' ''geotiff''"
    unfolding contains_substring_def
    by (rule exI [of _ "''image/tiff; application=''"], rule exI [of _ "[]"]) simp
  note T = defaultAssets_agree_with_scan [OF h, of manager0 generated]
  from T have a: "assets_L (fst (addItemLayer manager0 previewItem None generated)) =
      scanDefaultAssets (assets_I previewItem)" by blast
  have ty: "type_A \<lparr>href = ''d.tif'', type_A = Some ''image/tiff; application=geotiff''\<rparr> =
      Some ''image/tiff; application=geotiff''"
    by simp
  from T [THEN conjunct2, rule_format, OF conjI [OF e conjI [OF ty g]]]
  have b: "assets_L (fst (addItemLayer manager0 previewItem None generated)) = [''data'']" .
  from a b have c: "scanDefaultAssets (assets_I previewItem) = [''data'']"
    by simp
  from h b c show ?thesis by blast
qed

text \<open>
  C6. The third step of the heuristic is to select the first asset key that contains none of
  the exclusion patterns. On an item whose first such key is the empty string the code
  does not: \<open>find\<close> returns the empty key, the test \<open>dataAsset ? [dataAsset] : []\<close> takes
  it for a miss, and nothing is selected, where the scan of the specification selects that
  key.
\<close>

theorem default_asset_empty_key:
  "opt_renderParams None = None \<and> opt_assets None = None \<and> itemDefaultPreset emptyKeyItem = None \<and>
   map fst (assets_I emptyKeyItem) = [[], ''B04''] \<and>
   scanDefaultAssets (assets_I emptyKeyItem) = [[]] \<and>
   getDefaultAssets emptyKeyItem = [] \<and>
   assets_L (fst (addItemLayer manager0 emptyKeyItem None generated)) = []"
proof -
  have h: "opt_renderParams None = None" "opt_assets None = None" "itemDefaultPreset emptyKeyItem = None"
    by (simp_all add: opt_renderParams_def opt_assets_def itemDefaultPreset_def itemCollectionId_def
        emptyKeyItem_def)
  have e: "assets_I emptyKeyItem =
      [([], \<lparr>href = ''a.bin'', type_A = None\<rparr>), (''B04'', \<lparr>href = ''b04.bin'', type_A = None\<rparr>)]"
    by (simp add: emptyKeyItem_def)
  have code: "getDefaultAssets emptyKeyItem = []"
    by code_simp
  have "assets (chosenBundle emptyKeyItem None) = None"
    using h by (simp add: chosenBundle_def emptyParams_def)
  with h(2) code have added: "assets_L (fst (addItemLayer manager0 emptyKeyItem None generated)) = []"
    by (simp add: addItemLayer_assets)
  have lower: "toLowerCase [] = []"
    by (simp add: toLowerCase_def)
  have scan: "scanDefaultAssets (assets_I emptyKeyItem) = [[]]"
    by (simp add: e scanDefaultAssets_def lower includes_str_iff [symmetric])
  from h e code added scan show ?thesis by simp
qed

theorem default_asset_empty_key_witness:
  "scanDefaultAssets (assets_I emptyKeyItem) \<noteq>
     assets_L (fst (addItemLayer manager0 emptyKeyItem None generated))"
  using default_asset_empty_key by simp

text \<open>
  The second and the third step on concrete asset maps, an asset map with nothing to select,
  and one whose only key is the empty string: \<open>find\<close> returns that key, the test
  \<open>dataAsset ? [dataAsset] : []\<close> takes it for a miss.
\<close>

lemma default_assets_examples:
  "defaultAssetsOf [(''thumbnail'', \<lparr>href = [], type_A = Some ''image/png''\<rparr>),
                    (''B04'', \<lparr>href = [], type_A = Some ''image/tiff; application=geotiff''\<rparr>)] = [''B04'']"
  "defaultAssetsOf [(''Thumbnail'', \<lparr>href = [], type_A = Some ''image/png''\<rparr>),
                    (''rendered_preview'', \<lparr>href = [], type_A = Some ''image/png''\<rparr>),
                    (''tilejson'', \<lparr>href = [], type_A = Some ''application/json''\<rparr>),
                    (''quicklook'', \<lparr>href = [], type_A = None\<rparr>)] = [''quicklook'']"
  "defaultAssetsOf [(''thumbnail'', \<lparr>href = [], type_A = None\<rparr>)] = []"
  "defaultAssetsOf [([], \<lparr>href = [], type_A = None\<rparr>)] = []"
  by code_simp+

section \<open>Tile-URL builder: the serialized parameters\<close>

lemma split_on_not_Nil [simp]: "split_on c xs \<noteq> []"
  by (induction xs) (auto split: list.split)

lemma split_on_no_sep: "c \<notin> set w \<Longrightarrow> split_on c w = [w]"
  by (induction w) auto

lemma split_on_append: "c \<notin> set w \<Longrightarrow> split_on c (w @ c # rest) = w # split_on c rest"
  by (induction w) auto

lemma split_on_join:
  "ws \<noteq> [] \<Longrightarrow> \<forall>w \<in> set ws. c \<notin> set w \<Longrightarrow> split_on c (join [c] ws) = ws"
proof (induction "[c]" ws rule: join.induct)
  case 1
  then show ?case by simp
next
  case (2 x)
  then show ?case by (simp add: split_on_no_sep)
next
  case (3 x y ys)
  then show ?case by (simp add: split_on_append)
qed

lemma hexDigit_not_sep: "n < 16 \<Longrightarrow> hexDigit n \<noteq> CHR ''&'' \<and> hexDigit n \<noteq> CHR ''=''"
proof -
  assume "n < 16"
  then have "hexDigit n \<in> set ''0123456789ABCDEF''"
    unfolding hexDigit_def by (intro nth_mem) simp
  then show ?thesis by auto
qed

lemma of_char_div16: "(of_char (c::char) :: nat) div 16 < 16"
proof -
  define n where "n = (of_char c :: nat)"
  have "n < 256" unfolding n_def by simp
  then have "n div 16 < 16" by arith
  then show ?thesis unfolding n_def .
qed

lemma formEncodeChar_no_sep:
  "CHR ''&'' \<notin> set (formEncodeChar c) \<and> CHR ''='' \<notin> set (formEncodeChar c)"
proof -
  have a: "isAlnum c \<Longrightarrow> c \<noteq> CHR ''&'' \<and> c \<noteq> CHR ''=''"
    by (auto simp: isAlnum_def)
  have h1: "hexDigit (of_char c div 16) \<noteq> CHR ''&'' \<and> hexDigit (of_char c div 16) \<noteq> CHR ''=''"
    by (rule hexDigit_not_sep) (rule of_char_div16)
  have h2: "hexDigit (of_char c mod 16) \<noteq> CHR ''&'' \<and> hexDigit (of_char c mod 16) \<noteq> CHR ''=''"
    by (rule hexDigit_not_sep) simp
  from a h1 h2 show ?thesis
    by (auto simp: formEncodeChar_def percentEncode_def)
qed

lemma formEncode_no_sep:
  "CHR ''&'' \<notin> set (formEncode s)" "CHR ''='' \<notin> set (formEncode s)"
  using formEncodeChar_no_sep by (auto simp: formEncode_def)

lemma pair_of_part:
  "CHR ''='' \<notin> set k \<Longrightarrow>
   takeWhile (\<lambda>c. c \<noteq> CHR ''='') (k @ ''='' @ v) = k \<and>
   drop 1 (dropWhile (\<lambda>c. c \<noteq> CHR ''='') (k @ ''='' @ v)) = v"
  by (induction k) auto

lemma join_Nil_iff: "join sep ws = [] \<longleftrightarrow> (\<forall>w \<in> set ws. w = []) \<and> (sep = [] \<or> length ws \<le> 1)"
  by (induction sep ws rule: join.induct) auto

lemma toString_params_Nil_iff: "toString_params es = [] \<longleftrightarrow> es = []"
  by (cases es) (auto simp: toString_params_def join_Nil_iff)

lemma query_entries_toString:
  "query_entries (toString_params es) = map (\<lambda>e. (formEncode (fst e), formEncode (snd e))) es"
proof (cases "es = []")
  case True
  then show ?thesis by (simp add: query_entries_def toString_params_def)
next
  case False
  let ?parts = "map (\<lambda>e. formEncode (fst e) @ ''='' @ formEncode (snd e)) es"
  have ne: "?parts \<noteq> []" using False by simp
  have nosep: "\<forall>w \<in> set ?parts. CHR ''&'' \<notin> set w"
    using formEncode_no_sep(1) by auto
  have "split_on (CHR ''&'') (join ''&'' ?parts) = ?parts"
    by (rule split_on_join [OF ne nosep])
  moreover have "toString_params es \<noteq> []"
    using False by (simp add: toString_params_Nil_iff)
  ultimately show ?thesis
    using pair_of_part [OF formEncode_no_sep(2)]
    by (simp add: query_entries_def toString_params_def comp_def)
qed


lemma foldl_append_param:
  "foldl (\<lambda>s a. append_param k (f a) s) sp xs = sp @ map (\<lambda>a. (k, f a)) xs"
  by (induction xs arbitrary: sp) (simp_all add: append_param_def)

lemma set_param_fresh: "k \<notin> fst ` set sp \<Longrightarrow> set_param k v sp = sp @ [(k, v)]"
  by (induction sp) auto

lemma set_param_after: "k \<notin> fst ` set pre \<Longrightarrow> set_param k v (pre @ sp) = pre @ set_param k v sp"
  by (induction pre) auto

lemma set_param_keys: "fst ` set (set_param k v sp) = insert k (fst ` set sp)"
  by (induction sp) (auto simp: image_iff)

lemma appendAssets_Nil:
  "appendAssets as [] = map (\<lambda>a. (''assets'', a)) (case as of Some xs \<Rightarrow> xs | None \<Rightarrow> [])"
  using foldl_append_param [of "''assets''" "\<lambda>a. a" "[]"]
  by (simp add: appendAssets_def split: option.split)

lemma setText_fresh:
  "k \<notin> fst ` set sp \<Longrightarrow>
   setText k v sp = sp @ (case v of Some x \<Rightarrow> if x \<noteq> [] then [(k, x)] else [] | None \<Rightarrow> [])"
  by (simp add: setText_def set_param_fresh split: option.split)

lemma step_setDefined:
  assumes "k \<notin> fst ` set pre" "k \<in> K" "fst ` set rest \<subseteq> K"
  shows "\<exists>rest'. setDefined k v (pre @ rest) = pre @ rest' \<and> fst ` set rest' \<subseteq> K"
proof (cases v)
  case None
  with assms show ?thesis by (simp add: setDefined_def)
next
  case (Some x)
  have "setDefined k v (pre @ rest) = pre @ set_param k x rest"
    using assms(1) Some by (simp add: setDefined_def set_param_after)
  moreover have "fst ` set (set_param k x rest) \<subseteq> K"
    using assms(2,3) by (simp add: set_param_keys)
  ultimately show ?thesis by blast
qed

lemma step_setText:
  assumes "k \<notin> fst ` set pre" "k \<in> K" "fst ` set rest \<subseteq> K"
  shows "\<exists>rest'. setText k v (pre @ rest) = pre @ rest' \<and> fst ` set rest' \<subseteq> K"
proof -
  have "setText k v (pre @ rest) =
      setDefined k (case v of Some x \<Rightarrow> if x \<noteq> [] then Some x else None | None \<Rightarrow> None) (pre @ rest)"
    by (simp add: setText_def setDefined_def split: option.split)
  with step_setDefined [OF assms] show ?thesis by simp
qed

lemma step_appendBidx:
  assumes "''asset_bidx'' \<in> K" "fst ` set rest \<subseteq> K"
  shows "\<exists>rest'. appendBidx ab (pre @ rest) = pre @ rest' \<and> fst ` set rest' \<subseteq> K"
proof (cases ab)
  case None
  with assms show ?thesis by (simp add: appendBidx_def)
next
  case (Some es)
  have "appendBidx ab (pre @ rest) =
      pre @ (rest @ map (\<lambda>e. (''asset_bidx'', fst e @ ''|'' @ snd e)) es)"
    using Some foldl_append_param [of "''asset_bidx''" "\<lambda>e. fst e @ ''|'' @ snd e" "pre @ rest" es]
    by (simp add: appendBidx_def)
  moreover have "fst ` set (rest @ map (\<lambda>e. (''asset_bidx'', fst e @ ''|'' @ snd e)) es) \<subseteq> K"
    using assms by auto
  ultimately show ?thesis by blast
qed

lemma buildQueryEntries_shape:
  "\<exists>rest. buildQueryEntries tp =
      map (\<lambda>a. (''assets'', a)) (case assets tp of Some as \<Rightarrow> as | None \<Rightarrow> []) @
      (case expression tp of Some e \<Rightarrow> if e \<noteq> [] then [(''expression'', e)] else [] | None \<Rightarrow> []) @
      rest \<and>
    fst ` set rest \<subseteq> otherKeys"
proof -
  let ?A = "map (\<lambda>a. (''assets'', a)) (case assets tp of Some as \<Rightarrow> as | None \<Rightarrow> [])"
  let ?E = "case expression tp of Some e \<Rightarrow> if e \<noteq> [] then [(''expression'', e)] else [] | None \<Rightarrow> []"
  let ?P = "?A @ ?E"
  have keysA: "fst ` set ?A \<subseteq> {''assets''}" by auto
  have keysP: "fst ` set ?P \<subseteq> {''assets'', ''expression''}"
    by (auto split: option.splits if_splits)
  have s2: "setText ''expression'' (expression tp) (appendAssets (assets tp) []) = ?P @ []"
    using keysA by (subst appendAssets_Nil, subst setText_fresh) auto
  have fresh: "k \<in> otherKeys \<Longrightarrow> k \<notin> fst ` set ?P" for k
    using keysP by (auto simp: otherKeys_def)
  have k: "''rescale'' \<in> otherKeys" "''colormap_name'' \<in> otherKeys" "''colormap'' \<in> otherKeys"
    "''nodata'' \<in> otherKeys" "''resampling'' \<in> otherKeys" "''return_mask'' \<in> otherKeys"
    "''tile_size'' \<in> otherKeys" "''asset_bidx'' \<in> otherKeys"
    by (simp_all add: otherKeys_def)
  have r0: "fst ` set ([] :: URLSearchParams) \<subseteq> otherKeys" by simp
  from step_setText [OF fresh [OF k(1)] k(1) r0, of "rescale tp"]
  obtain r3 where s3: "setText ''rescale'' (rescale tp) (?P @ []) = ?P @ r3"
    and k3: "fst ` set r3 \<subseteq> otherKeys" by blast
  from step_setText [OF fresh [OF k(2)] k(2) k3, of "colormap_name tp"]
  obtain r4 where s4: "setText ''colormap_name'' (colormap_name tp) (?P @ r3) = ?P @ r4"
    and k4: "fst ` set r4 \<subseteq> otherKeys" by blast
  from step_setDefined [OF fresh [OF k(3)] k(3) k4, of "map_option JSON_stringify_colormap (colormap tp)"]
  obtain r5 where s5: "setDefined ''colormap'' (map_option JSON_stringify_colormap (colormap tp)) (?P @ r4) = ?P @ r5"
    and k5: "fst ` set r5 \<subseteq> otherKeys" by blast
  from step_setDefined [OF fresh [OF k(4)] k(4) k5, of "map_option String_number (nodata tp)"]
  obtain r6 where s6: "setDefined ''nodata'' (map_option String_number (nodata tp)) (?P @ r5) = ?P @ r6"
    and k6: "fst ` set r6 \<subseteq> otherKeys" by blast
  from step_setDefined [OF fresh [OF k(5)] k(5) k6, of "map_option resampling_string (resampling tp)"]
  obtain r7 where s7: "setDefined ''resampling'' (map_option resampling_string (resampling tp)) (?P @ r6) = ?P @ r7"
    and k7: "fst ` set r7 \<subseteq> otherKeys" by blast
  from step_setDefined [OF fresh [OF k(6)] k(6) k7, of "map_option String_boolean (return_mask tp)"]
  obtain r8 where s8: "setDefined ''return_mask'' (map_option String_boolean (return_mask tp)) (?P @ r7) = ?P @ r8"
    and k8: "fst ` set r8 \<subseteq> otherKeys" by blast
  from step_setDefined [OF fresh [OF k(7)] k(7) k8,
      of "case tile_size tp of Some n \<Rightarrow> if truthyNumber n then Some (String_number n) else None | None \<Rightarrow> None"]
  obtain r9 where s9: "setDefined ''tile_size''
        (case tile_size tp of Some n \<Rightarrow> if truthyNumber n then Some (String_number n) else None | None \<Rightarrow> None)
        (?P @ r8) = ?P @ r9"
    and k9: "fst ` set r9 \<subseteq> otherKeys" by blast
  from step_appendBidx [OF k(8) k9, of "asset_bidx tp" ?P]
  obtain r10 where s10: "appendBidx (asset_bidx tp) (?P @ r9) = ?P @ r10"
    and k10: "fst ` set r10 \<subseteq> otherKeys" by blast
  have "buildQueryEntries tp = ?P @ r10"
    unfolding buildQueryEntries_def Let_def s2 s3 s4 s5 s6 s7 s8 s9 s10 ..
  with k10 show ?thesis by auto
qed


lemma formEncode_fixed_keys:
  "formEncode ''assets'' = ''assets''" "formEncode ''expression'' = ''expression''"
  "k \<in> otherKeys \<Longrightarrow> formEncode k = k"
proof -
  show "formEncode ''assets'' = ''assets''" "formEncode ''expression'' = ''expression''"
    by (simp_all add: formEncode_def formEncodeChar_def isAlnum_def)
  assume "k \<in> otherKeys"
  then show "formEncode k = k"
    unfolding otherKeys_def
    by (auto simp: formEncode_def formEncodeChar_def isAlnum_def)
qed

lemma query_entries_buildQueryString:
  "\<exists>rest. query_entries (buildQueryString tp) =
      map (\<lambda>a. (''assets'', formEncode a)) (case assets tp of Some as \<Rightarrow> as | None \<Rightarrow> []) @
      (case expression tp of
         Some e \<Rightarrow> if e \<noteq> [] then [(''expression'', formEncode e)] else []
       | None \<Rightarrow> []) @
      rest \<and>
    fst ` set rest \<subseteq> otherKeys"
proof -
  from buildQueryEntries_shape [of tp]
  obtain rest where e: "buildQueryEntries tp =
      map (\<lambda>a. (''assets'', a)) (case assets tp of Some as \<Rightarrow> as | None \<Rightarrow> []) @
      (case expression tp of Some e \<Rightarrow> if e \<noteq> [] then [(''expression'', e)] else [] | None \<Rightarrow> []) @
      rest"
    and k: "fst ` set rest \<subseteq> otherKeys"
    by blast
  let ?enc = "\<lambda>e. (formEncode (fst e), formEncode (snd e))"
  have "query_entries (buildQueryString tp) = map ?enc (buildQueryEntries tp)"
    by (simp add: buildQueryString_def query_entries_toString)
  also have "\<dots> =
      map (\<lambda>a. (''assets'', formEncode a)) (case assets tp of Some as \<Rightarrow> as | None \<Rightarrow> []) @
      (case expression tp of
         Some e \<Rightarrow> if e \<noteq> [] then [(''expression'', formEncode e)] else []
       | None \<Rightarrow> []) @
      map ?enc rest"
    by (simp add: e formEncode_fixed_keys comp_def split: option.split)
  finally have q: "query_entries (buildQueryString tp) =
      map (\<lambda>a. (''assets'', formEncode a)) (case assets tp of Some as \<Rightarrow> as | None \<Rightarrow> []) @
      (case expression tp of
         Some e \<Rightarrow> if e \<noteq> [] then [(''expression'', formEncode e)] else []
       | None \<Rightarrow> []) @
      map ?enc rest" .
  have "fst ` set (map ?enc rest) \<subseteq> otherKeys"
    using k formEncode_fixed_keys(3) by (auto simp: image_iff)
  with q show ?thesis by blast
qed

lemma otherKeys_not_fixed: "''assets'' \<notin> otherKeys" "''expression'' \<notin> otherKeys"
  by (simp_all add: otherKeys_def)

text \<open>
  C7. For a parameter bundle with a non-empty \<open>assets\<close> list and no \<open>expression\<close>, the
  parameters named \<open>assets\<close> in the serialized query string are the (form-encoded) members
  of the list, one each and in the list's order; they are the first parameters of the string;
  and no parameter is named \<open>expression\<close>. The same holds of the \<open>URLSearchParams\<close>
  object before it is serialized.
\<close>

theorem buildQueryString_assets_only:
  assumes "assets tp = Some as" and "as \<noteq> []" and "expression tp = None"
  shows "map snd (filter (\<lambda>e. fst e = ''assets'') (query_entries (buildQueryString tp))) =
           map formEncode as \<and>
         take (length as) (query_entries (buildQueryString tp)) =
           map (\<lambda>a. (''assets'', formEncode a)) as \<and>
         ''expression'' \<notin> fst ` set (query_entries (buildQueryString tp)) \<and>
         filter (\<lambda>e. fst e = ''assets'') (buildQueryEntries tp) = map (\<lambda>a. (''assets'', a)) as \<and>
         ''expression'' \<notin> fst ` set (buildQueryEntries tp)"
proof -
  from query_entries_buildQueryString [of tp] assms
  obtain rest where q: "query_entries (buildQueryString tp) =
      map (\<lambda>a. (''assets'', formEncode a)) as @ rest"
    and k: "fst ` set rest \<subseteq> otherKeys"
    by auto
  from buildQueryEntries_shape [of tp] assms
  obtain rest' where q': "buildQueryEntries tp = map (\<lambda>a. (''assets'', a)) as @ rest'"
    and k': "fst ` set rest' \<subseteq> otherKeys"
    by auto
  have none: "filter (\<lambda>e. fst e = ''assets'') r = []" "''expression'' \<notin> fst ` set r"
    if "fst ` set r \<subseteq> otherKeys" for r :: URLSearchParams
    using that otherKeys_not_fixed by (auto simp: filter_empty_conv)
  show ?thesis
    using none [OF k] none [OF k']
    by (auto simp: q q' comp_def filter_map image_iff)
qed


lemma falseColor_query:
  "buildQueryString falseColorParams = ''assets=B08&assets=B04&assets=B03&rescale=0%2C3000''"
  by code_simp

theorem buildQueryString_assets_only_witness:
  "assets falseColorParams = Some [''B08'', ''B04'', ''B03''] \<and>
   expression falseColorParams = None \<and>
   buildQueryString falseColorParams = ''assets=B08&assets=B04&assets=B03&rescale=0%2C3000'' \<and>
   map snd (filter (\<lambda>e. fst e = ''assets'') (query_entries (buildQueryString falseColorParams))) =
     [''B08'', ''B04'', ''B03''] \<and>
   ''expression'' \<notin> fst ` set (query_entries (buildQueryString falseColorParams))"
proof -
  have a: "assets falseColorParams = Some [''B08'', ''B04'', ''B03'']"
    and e: "expression falseColorParams = None"
    by (simp_all add: falseColorParams_def emptyParams_def)
  have ne: "[''B08'', ''B04'', ''B03''] \<noteq> ([] :: string list)" by simp
  have enc: "map formEncode [''B08'', ''B04'', ''B03''] = [''B08'', ''B04'', ''B03'']"
    by (simp add: formEncode_def formEncodeChar_def isAlnum_def)
  from buildQueryString_assets_only [OF a ne e] a e falseColor_query enc
  show ?thesis by simp
qed

section \<open>Mosaic tile URL: the search fields that reach it\<close>

lemma join_append:
  "xs \<noteq> [] \<Longrightarrow> ys \<noteq> [] \<Longrightarrow> join sep (xs @ ys) = join sep xs @ sep @ join sep ys"
proof (induction sep xs rule: join.induct)
  case (1 sep)
  then show ?case by simp
next
  case (2 sep x)
  then show ?case by (cases ys) simp_all
next
  case (3 sep x y zs)
  then show ?case by simp
qed

lemma join_not_Nil: "xs \<noteq> [] \<Longrightarrow> \<forall>x \<in> set xs. x \<noteq> [] \<Longrightarrow> join sep xs \<noteq> []"
  by (induction sep xs rule: join.induct) auto

lemma set_join: "set (join sep xs) \<subseteq> set sep \<union> \<Union> (set ` set xs)"
  by (induction sep xs rule: join.induct) auto

lemma query_entries_join:
  assumes "ps \<noteq> []" and "\<forall>p \<in> set ps. p \<noteq> [] \<and> CHR ''&'' \<notin> set p"
  shows "query_entries (join ''&'' ps) =
           map (\<lambda>part. (takeWhile (\<lambda>c. c \<noteq> CHR ''='') part,
                         drop 1 (dropWhile (\<lambda>c. c \<noteq> CHR ''='') part))) ps"
proof -
  have "join ''&'' ps \<noteq> []"
    using assms by (intro join_not_Nil) auto
  moreover have "split_on (CHR ''&'') (join ''&'' ps) = ps"
    using assms by (intro split_on_join) auto
  ultimately show ?thesis by (simp add: query_entries_def)
qed

lemma percentEncode_no_sep:
  "CHR ''&'' \<notin> set (percentEncode c) \<and> CHR ''='' \<notin> set (percentEncode c)"
proof -
  have h1: "hexDigit (of_char c div 16) \<noteq> CHR ''&'' \<and> hexDigit (of_char c div 16) \<noteq> CHR ''=''"
    by (rule hexDigit_not_sep) (rule of_char_div16)
  have h2: "hexDigit (of_char c mod 16) \<noteq> CHR ''&'' \<and> hexDigit (of_char c mod 16) \<noteq> CHR ''=''"
    by (rule hexDigit_not_sep) simp
  from h1 h2 show ?thesis by (auto simp: percentEncode_def)
qed

lemma encodeURIComponent_no_sep:
  "CHR ''&'' \<notin> set (encodeURIComponent s)" "CHR ''='' \<notin> set (encodeURIComponent s)"
proof -
  have a: "uriUnreserved c \<Longrightarrow> c \<noteq> CHR ''&'' \<and> c \<noteq> CHR ''=''" for c
    by (auto simp: uriUnreserved_def isAlnum_def)
  show "CHR ''&'' \<notin> set (encodeURIComponent s)" "CHR ''='' \<notin> set (encodeURIComponent s)"
    using a percentEncode_no_sep by (auto simp: encodeURIComponent_def split: if_splits)
qed

lemma set_digits: "set (digits n) \<subseteq> set ''0123456789''"
proof (induction n rule: digits.induct)
  case (1 n)
  have d: "''0123456789'' ! m \<in> set ''0123456789''" if "m < 10" for m
    using that by (intro nth_mem) simp
  show ?case
  proof (cases "n < 10")
    case True
    with d [of n] show ?thesis by (subst digits.simps) simp
  next
    case False
    with 1 d [of "n mod 10"] show ?thesis by (subst digits.simps) auto
  qed
qed

lemma digits_no_amp: "CHR ''&'' \<notin> set (digits n)"
proof
  assume "CHR ''&'' \<in> set (digits n)"
  with set_digits [of n] have "CHR ''&'' \<in> set ''0123456789''" by (rule subsetD)
  then show False by simp
qed

lemma formatDigits_no_amp:
  assumes ds: "CHR ''&'' \<notin> set ds"
  shows "CHR ''&'' \<notin> set (formatDigits ds n)"
proof -
  have t: "CHR ''&'' \<notin> set (take m ds)" "CHR ''&'' \<notin> set (drop m ds)" for m
    using ds by (auto dest: in_set_takeD in_set_dropD)
  define es where "es = (if n - 1 < 0 then ''-'' else ''+'') @ digits (nat \<bar>n - 1\<bar>)"
  have es: "CHR ''&'' \<notin> set es"
    using digits_no_amp [of "nat \<bar>n - 1\<bar>"] by (simp add: es_def)
  consider (a) "int (length ds) \<le> n \<and> n \<le> 21"
    | (b) "\<not> (int (length ds) \<le> n \<and> n \<le> 21)" "0 < n \<and> n \<le> 21"
    | (c) "\<not> (int (length ds) \<le> n \<and> n \<le> 21)" "\<not> (0 < n \<and> n \<le> 21)" "- 6 < n \<and> n \<le> 0"
    | (d) "\<not> (int (length ds) \<le> n \<and> n \<le> 21)" "\<not> (0 < n \<and> n \<le> 21)" "\<not> (- 6 < n \<and> n \<le> 0)"
    by blast
  then show ?thesis
  proof cases
    case a
    then have "formatDigits ds n = ds @ replicate (nat (n - int (length ds))) (CHR ''0'')"
      by (simp add: formatDigits_def Let_def)
    then show ?thesis using ds by simp
  next
    case b
    then have "formatDigits ds n = take (nat n) ds @ ''.'' @ drop (nat n) ds"
      by (simp add: formatDigits_def Let_def)
    then show ?thesis using t [of "nat n"] by simp
  next
    case c
    then have "formatDigits ds n = ''0.'' @ replicate (nat (- n)) (CHR ''0'') @ ds"
      by (simp add: formatDigits_def Let_def)
    then show ?thesis using ds by simp
  next
    case d
    then have "formatDigits ds n =
        (if int (length ds) = 1 then ds @ ''e'' @ es else take 1 ds @ ''.'' @ drop 1 ds @ ''e'' @ es)"
      unfolding formatDigits_def Let_def es_def by (simp only: if_False)
    then show ?thesis using t [of 1] ds es by (simp split: if_splits)
  qed
qed

lemma String_number_no_amp: "CHR ''&'' \<notin> set (String_number x)"
proof (cases x)
  case (Finite neg s n)
  have "CHR ''&'' \<notin> set (formatDigits (digits s) n)"
    by (rule formatDigits_no_amp) (rule digits_no_amp)
  with Finite show ?thesis by simp
qed simp_all

lemma join_splice:
  assumes "xs \<noteq> []"
  shows "join sep (xs @ (if ys = [] then [] else [join sep ys]) @ zs) = join sep (xs @ ys @ zs)"
proof (cases "ys = []")
  case True
  then show ?thesis by simp
next
  case ys: False
  show ?thesis
  proof (cases "zs = []")
    case True
    with ys assms show ?thesis by (simp add: join_append)
  next
    case False
    have "join sep (xs @ [join sep ys] @ zs) = join sep xs @ sep @ join sep ([join sep ys] @ zs)"
      using assms by (intro join_append) simp_all
    also have "join sep ([join sep ys] @ zs) = join sep ys @ sep @ join sep zs"
      using False by (subst join_append) simp_all
    also have "\<dots> = join sep (ys @ zs)"
      using ys False by (simp add: join_append)
    also have "join sep xs @ sep @ join sep (ys @ zs) = join sep (xs @ ys @ zs)"
      using assms ys by (simp add: join_append)
    finally show ?thesis using ys by simp
  qed
qed

lemma buildSearchParams_parts:
  "buildSearchParams sp =
     join ''&''
       ((case datetime sp of
           Some d \<Rightarrow> if d \<noteq> [] then [''datetime='' @ encodeURIComponent d] else []
         | None \<Rightarrow> []) @
        (case bbox sp of
           Some b \<Rightarrow> [''bbox='' @ join '','' (map String_number b)]
         | None \<Rightarrow> []))"
  by (simp add: buildSearchParams_def Let_def split: option.split)

lemma bbox_value_no_amp: "CHR ''&'' \<notin> set (join '','' (map String_number b))"
proof
  assume "CHR ''&'' \<in> set (join '','' (map String_number b))"
  with set_join [of "'',''" "map String_number b"]
  have "CHR ''&'' \<in> set '','' \<union> \<Union> (set ` set (map String_number b))" by (rule subsetD)
  then show False using String_number_no_amp by auto
qed

lemma mosaic_query_entries:
  fixes tp :: TileParams and sp :: STACSearchParams
  defines "S \<equiv> (case datetime sp of
                   Some d \<Rightarrow> if d \<noteq> [] then [''datetime='' @ encodeURIComponent d] else []
                 | None \<Rightarrow> []) @
               (case bbox sp of
                   Some b \<Rightarrow> [''bbox='' @ join '','' (map String_number b)]
                 | None \<Rightarrow> [])"
  shows "query_entries (join ''&'' (filter (\<lambda>s. s \<noteq> [])
           [''collection='' @ encodeURIComponent cid, buildQueryString tp, buildSearchParams sp])) =
         (''collection'', encodeURIComponent cid) # query_entries (buildQueryString tp) @
         (case datetime sp of
            Some d \<Rightarrow> if d \<noteq> [] then [(''datetime'', encodeURIComponent d)] else []
          | None \<Rightarrow> []) @
         (case bbox sp of
            Some b \<Rightarrow> [(''bbox'', join '','' (map String_number b))]
          | None \<Rightarrow> [])"
proof -
  let ?pairOf = "\<lambda>part. (takeWhile (\<lambda>c. c \<noteq> CHR ''='') part,
                         drop 1 (dropWhile (\<lambda>c. c \<noteq> CHR ''='') part))"
  let ?c = "''collection='' @ encodeURIComponent cid"
  define T where "T = map (\<lambda>e. formEncode (fst e) @ ''='' @ formEncode (snd e)) (buildQueryEntries tp)"
  have tile: "buildQueryString tp = join ''&'' T"
    by (simp add: buildQueryString_def toString_params_def T_def)
  have search: "buildSearchParams sp = join ''&'' S"
    unfolding S_def by (rule buildSearchParams_parts)
  have T_ok: "\<forall>p \<in> set T. p \<noteq> [] \<and> CHR ''&'' \<notin> set p"
    using formEncode_no_sep(1) by (auto simp: T_def)
  have S_ok: "\<forall>p \<in> set S. p \<noteq> [] \<and> CHR ''&'' \<notin> set p"
    using encodeURIComponent_no_sep(1) bbox_value_no_amp
    by (auto simp: S_def split: option.splits if_splits)
  have c_ok: "?c \<noteq> [] \<and> CHR ''&'' \<notin> set ?c"
    using encodeURIComponent_no_sep(1) [of cid] by simp
  have T_Nil: "join ''&'' T = [] \<longleftrightarrow> T = []"
    using T_ok by (cases T) (auto simp: join_Nil_iff)
  have S_Nil: "join ''&'' S = [] \<longleftrightarrow> S = []"
    using S_ok by (cases S) (auto simp: join_Nil_iff)
  have "filter (\<lambda>s. s \<noteq> []) [?c, buildQueryString tp, buildSearchParams sp] =
          [?c] @ (if T = [] then [] else [join ''&'' T]) @ (if S = [] then [] else [join ''&'' S])"
    by (simp add: tile search T_Nil S_Nil)
  then have "join ''&'' (filter (\<lambda>s. s \<noteq> []) [?c, buildQueryString tp, buildSearchParams sp]) =
          join ''&'' ([?c] @ (if T = [] then [] else [join ''&'' T]) @
                      (if S = [] then [] else [join ''&'' S]))"
    by (rule arg_cong)
  also have "\<dots> = join ''&'' ([?c] @ T @ (if S = [] then [] else [join ''&'' S]))"
    by (rule join_splice) simp
  also have "\<dots> = join ''&'' (([?c] @ T) @ (if S = [] then [] else [join ''&'' S]) @ [])"
    by simp
  also have "\<dots> = join ''&'' (([?c] @ T) @ S @ [])"
    by (rule join_splice) simp
  finally have all: "join ''&'' (filter (\<lambda>s. s \<noteq> []) [?c, buildQueryString tp, buildSearchParams sp]) =
      join ''&'' (?c # T @ S)"
    by simp
  have "query_entries (join ''&'' (?c # T @ S)) = map ?pairOf (?c # T @ S)"
    using T_ok S_ok c_ok by (intro query_entries_join) auto
  also have "\<dots> = ?pairOf ?c # map ?pairOf T @ map ?pairOf S"
    by simp
  also have "?pairOf ?c = (''collection'', encodeURIComponent cid)"
    using pair_of_part [of "''collection''" "encodeURIComponent cid"] by simp
  also have "map ?pairOf T = map (\<lambda>e. (formEncode (fst e), formEncode (snd e))) (buildQueryEntries tp)"
    using pair_of_part [OF formEncode_no_sep(2)] by (simp add: T_def comp_def)
  also have "\<dots> = query_entries (buildQueryString tp)"
    by (simp add: buildQueryString_def query_entries_toString)
  also have "map ?pairOf S =
         (case datetime sp of
            Some d \<Rightarrow> if d \<noteq> [] then [(''datetime'', encodeURIComponent d)] else []
          | None \<Rightarrow> []) @
         (case bbox sp of
            Some b \<Rightarrow> [(''bbox'', join '','' (map String_number b))]
          | None \<Rightarrow> [])"
    using pair_of_part [of "''datetime''"] pair_of_part [of "''bbox''"]
    by (simp add: S_def split: option.split)
  finally show ?thesis by (simp only: all)
qed

lemma disjoint_subset: "A \<subseteq> B \<Longrightarrow> B \<inter> C = {} \<Longrightarrow> A \<inter> C = {}"
  by blast

lemma tile_keys_not_search:
  "fst ` set (query_entries (buildQueryString tp)) \<inter> searchFieldNames = {}"
proof -
  from query_entries_buildQueryString [of tp]
  obtain rest where q: "query_entries (buildQueryString tp) =
      map (\<lambda>a. (''assets'', formEncode a)) (case assets tp of Some as \<Rightarrow> as | None \<Rightarrow> []) @
      (case expression tp of
         Some e \<Rightarrow> if e \<noteq> [] then [(''expression'', formEncode e)] else []
       | None \<Rightarrow> []) @
      rest"
    and k: "fst ` set rest \<subseteq> otherKeys"
    by blast
  have o: "otherKeys \<inter> searchFieldNames = {}"
    by (simp add: otherKeys_def searchFieldNames_def)
  have f: "''assets'' \<notin> searchFieldNames" "''expression'' \<notin> searchFieldNames"
    by (simp_all add: searchFieldNames_def)
  have "fst ` set (query_entries (buildQueryString tp)) \<subseteq> {''assets'', ''expression''} \<union> otherKeys"
    unfolding q using k by (auto split: option.splits if_splits)
  moreover have "({''assets'', ''expression''} \<union> otherKeys) \<inter> searchFieldNames = {}"
    using o f by simp
  ultimately show ?thesis by (rule disjoint_subset)
qed

text \<open>
  C8. The query string of the mosaic tile URL built with a search-parameter set, read back as
  a list of parameters, is: the \<open>collection\<close> entry, the entries of the serialized
  tile parameters, the \<open>datetime\<close> entry (the percent-encoded range, when the string is
  not empty) and the \<open>bbox\<close> entry (the numbers joined by commas, when a box is given),
  in this order and nothing else. No entry bears the name of another search field, and the
  URL depends on the search-parameter set through \<open>datetime\<close> and \<open>bbox\<close> only: two
  sets that agree on these two fields give the same URL, whatever their \<open>query\<close>,
  \<open>filter\<close>, \<open>sortby\<close>, \<open>intersects\<close>, \<open>ids\<close>, \<open>limit\<close> and \<open>collections\<close>
  fields are.
\<close>

theorem mosaic_url_search_fields:
  "(\<exists>q. getCollectionTileUrl client cid tp (Some sp) =
          baseUrl client @ ''/mosaic/tiles/WebMercatorQuad/{z}/{x}/{y}@1x?'' @ q \<and>
        query_entries q =
          (''collection'', encodeURIComponent cid) # query_entries (buildQueryString tp) @
          (case datetime sp of
             Some d \<Rightarrow> if d \<noteq> [] then [(''datetime'', encodeURIComponent d)] else []
           | None \<Rightarrow> []) @
          (case bbox sp of
             Some b \<Rightarrow> [(''bbox'', join '','' (map String_number b))]
           | None \<Rightarrow> []) \<and>
        fst ` set (query_entries q) \<inter> searchFieldNames = {}) \<and>
   (datetime sp = datetime sp' \<and> bbox sp = bbox sp' \<longrightarrow>
      getCollectionTileUrl client cid tp (Some sp) = getCollectionTileUrl client cid tp (Some sp'))"
proof -
  let ?q = "join ''&'' (filter (\<lambda>s. s \<noteq> [])
              [''collection='' @ encodeURIComponent cid, buildQueryString tp, buildSearchParams sp])"
  have url: "getCollectionTileUrl client cid tp (Some sp) =
      baseUrl client @ ''/mosaic/tiles/WebMercatorQuad/{z}/{x}/{y}@1x?'' @ ?q"
    by (simp add: getCollectionTileUrl_def Let_def)
  have entries: "query_entries ?q =
      (''collection'', encodeURIComponent cid) # query_entries (buildQueryString tp) @
      (case datetime sp of
         Some d \<Rightarrow> if d \<noteq> [] then [(''datetime'', encodeURIComponent d)] else []
       | None \<Rightarrow> []) @
      (case bbox sp of
         Some b \<Rightarrow> [(''bbox'', join '','' (map String_number b))]
       | None \<Rightarrow> [])"
    by (rule mosaic_query_entries)
  have n: "''collection'' \<notin> searchFieldNames" "''datetime'' \<notin> searchFieldNames"
    "''bbox'' \<notin> searchFieldNames"
    by (simp_all add: searchFieldNames_def)
  have names: "fst ` set (query_entries ?q) \<inter> searchFieldNames = {}"
    unfolding entries using tile_keys_not_search [of tp] n
    by (auto split: option.splits if_splits)
  have same: "getCollectionTileUrl client cid tp (Some sp) = getCollectionTileUrl client cid tp (Some sp')"
    if "datetime sp = datetime sp'" "bbox sp = bbox sp'"
    using that by (simp add: getCollectionTileUrl_def buildSearchParams_parts Let_def)
  from url entries names
  have "getCollectionTileUrl client cid tp (Some sp) =
          baseUrl client @ ''/mosaic/tiles/WebMercatorQuad/{z}/{x}/{y}@1x?'' @ ?q \<and>
        query_entries ?q =
          (''collection'', encodeURIComponent cid) # query_entries (buildQueryString tp) @
          (case datetime sp of
             Some d \<Rightarrow> if d \<noteq> [] then [(''datetime'', encodeURIComponent d)] else []
           | None \<Rightarrow> []) @
          (case bbox sp of
             Some b \<Rightarrow> [(''bbox'', join '','' (map String_number b))]
           | None \<Rightarrow> []) \<and>
        fst ` set (query_entries ?q) \<inter> searchFieldNames = {}"
    by (intro conjI)
  then have ex: "\<exists>q. getCollectionTileUrl client cid tp (Some sp) =
          baseUrl client @ ''/mosaic/tiles/WebMercatorQuad/{z}/{x}/{y}@1x?'' @ q \<and>
        query_entries q =
          (''collection'', encodeURIComponent cid) # query_entries (buildQueryString tp) @
          (case datetime sp of
             Some d \<Rightarrow> if d \<noteq> [] then [(''datetime'', encodeURIComponent d)] else []
           | None \<Rightarrow> []) @
          (case bbox sp of
             Some b \<Rightarrow> [(''bbox'', join '','' (map String_number b))]
           | None \<Rightarrow> []) \<and>
        fst ` set (query_entries q) \<inter> searchFieldNames = {}"
    by (rule exI)
  show ?thesis
  proof (rule conjI)
    show "datetime sp = datetime sp' \<and> bbox sp = bbox sp' \<longrightarrow>
      getCollectionTileUrl client cid tp (Some sp) = getCollectionTileUrl client cid tp (Some sp')"
    proof
      assume "datetime sp = datetime sp' \<and> bbox sp = bbox sp'"
      then show "getCollectionTileUrl client cid tp (Some sp) = getCollectionTileUrl client cid tp (Some sp')"
        by (intro same) simp_all
    qed
  qed (rule ex)
qed

lemma bbox_numbers_example:
  "join '','' (map String_number
      [Finite True 1225 3, Finite False 375 2, Finite True 122 3, Finite False 38 2]) =
     ''-122.5,37.5,-122,38''"
  by code_simp

lemma encode_datetime_example:
  "encodeURIComponent ''2024-01-01/2024-12-31'' = ''2024-01-01%2F2024-12-31''"
  by (simp add: encodeURIComponent_def uriUnreserved_def isAlnum_def percentEncode_def hexDigit_def)

lemma falseColor_entries:
  "query_entries ''assets=B08&assets=B04&assets=B03&rescale=0%2C3000'' =
     [(''assets'', ''B08''), (''assets'', ''B04''), (''assets'', ''B03''), (''rescale'', ''0%2C3000'')]"
  by code_simp

lemma mosaic_url_example:
  "getCollectionTileUrl (TiTilerClient_new None) ''naip'' falseColorParams (Some spA) =
     ''https://planetarycomputer.microsoft.com/api/data/v1/mosaic/tiles/WebMercatorQuad/{z}/{x}/{y}@1x?collection=naip&assets=B08&assets=B04&assets=B03&rescale=0%2C3000&datetime=2024-01-01%2F2024-12-31&bbox=-122.5,37.5,-122,38''"
  by code_simp

theorem mosaic_url_search_fields_witness:
  "getCollectionTileUrl (TiTilerClient_new None) ''naip'' falseColorParams (Some spA) =
     getCollectionTileUrl (TiTilerClient_new None) ''naip'' falseColorParams (Some spB) \<and>
   (\<exists>q. getCollectionTileUrl (TiTilerClient_new None) ''naip'' falseColorParams (Some spA) =
          ''https://planetarycomputer.microsoft.com/api/data/v1/mosaic/tiles/WebMercatorQuad/{z}/{x}/{y}@1x?'' @ q \<and>
        query_entries q =
          [(''collection'', ''naip''), (''assets'', ''B08''), (''assets'', ''B04''),
           (''assets'', ''B03''), (''rescale'', ''0%2C3000''),
           (''datetime'', ''2024-01-01%2F2024-12-31''), (''bbox'', ''-122.5,37.5,-122,38'')])"
proof -
  have same: "datetime spA = datetime spB \<and> bbox spA = bbox spB"
    by (simp add: spA_def spB_def)
  have fields: "datetime spA = Some ''2024-01-01/2024-12-31''"
    "bbox spA = Some [Finite True 1225 3, Finite False 375 2, Finite True 122 3, Finite False 38 2]"
    by (simp_all add: spA_def)
  have base: "baseUrl (TiTilerClient_new None) = ''https://planetarycomputer.microsoft.com/api/data/v1''"
    by (simp add: TiTilerClient_new_def DEFAULT_TILER_URL_def)
  have naip: "encodeURIComponent ''naip'' = ''naip''"
    by (simp add: encodeURIComponent_def uriUnreserved_def isAlnum_def)
  note inst = mosaic_url_search_fields [of "TiTilerClient_new None" "''naip''" falseColorParams spA spB]
  from inst [THEN conjunct2, rule_format, OF same]
  have eq: "getCollectionTileUrl (TiTilerClient_new None) ''naip'' falseColorParams (Some spA) =
     getCollectionTileUrl (TiTilerClient_new None) ''naip'' falseColorParams (Some spB)" .
  from inst [THEN conjunct1]
  obtain q where u: "getCollectionTileUrl (TiTilerClient_new None) ''naip'' falseColorParams (Some spA) =
          baseUrl (TiTilerClient_new None) @ ''/mosaic/tiles/WebMercatorQuad/{z}/{x}/{y}@1x?'' @ q"
    and e: "query_entries q =
          (''collection'', encodeURIComponent ''naip'') # query_entries (buildQueryString falseColorParams) @
          (case datetime spA of
             Some d \<Rightarrow> if d \<noteq> [] then [(''datetime'', encodeURIComponent d)] else []
           | None \<Rightarrow> []) @
          (case bbox spA of
             Some b \<Rightarrow> [(''bbox'', join '','' (map String_number b))]
           | None \<Rightarrow> [])"
    by (elim exE conjE) (rule that)
  have u': "getCollectionTileUrl (TiTilerClient_new None) ''naip'' falseColorParams (Some spA) =
     ''https://planetarycomputer.microsoft.com/api/data/v1/mosaic/tiles/WebMercatorQuad/{z}/{x}/{y}@1x?'' @ q"
    using u by (simp add: base)
  have e': "query_entries q =
          [(''collection'', ''naip''), (''assets'', ''B08''), (''assets'', ''B04''),
           (''assets'', ''B03''), (''rescale'', ''0%2C3000''),
           (''datetime'', ''2024-01-01%2F2024-12-31''), (''bbox'', ''-122.5,37.5,-122,38'')]"
    unfolding e fields naip falseColor_query falseColor_entries
    by (simp add: encode_datetime_example bbox_numbers_example del: list.map)
  from u' e' have "\<exists>q. getCollectionTileUrl (TiTilerClient_new None) ''naip'' falseColorParams (Some spA) =
          ''https://planetarycomputer.microsoft.com/api/data/v1/mosaic/tiles/WebMercatorQuad/{z}/{x}/{y}@1x?'' @ q \<and>
        query_entries q =
          [(''collection'', ''naip''), (''assets'', ''B08''), (''assets'', ''B04''),
           (''assets'', ''B03''), (''rescale'', ''0%2C3000''),
           (''datetime'', ''2024-01-01%2F2024-12-31''), (''bbox'', ''-122.5,37.5,-122,38'')]"
    by (intro exI [of _ q] conjI)
  with eq show ?thesis by (rule conjI)
qed


section \<open>Layer registry: an expression without assets\<close>






end
